theory Spec2Isabelle
  imports Main "HOL-Library.Word" "HOL-Library.Char_ord" "HOL-Library.List_Lexorder"
begin

unbundle bit_operations_syntax

chapter \<open>The GlassBox compliance SDK: hashing, records, DSL and rule engine\<close>

text \<open>
  A shallow embedding of the Python package \<^verbatim>\<open>glassbox\<close>: the evidence manager,
  the audit trail, the DecisionBundle validator, the DSL tokenizer and evaluator and the
  caching layer of the rule engine.

  Conventions of the embedding.
  \<^item> A Python \<^verbatim>\<open>str\<close> is a \<^typ>\<open>string\<close> whose characters are the code points
    below 256; \<^verbatim>\<open>str.encode()\<close> is UTF-8 on these code points.
  \<^item> A raised exception is the \<open>Inl\<close> of a sum; a normal return is \<open>Inr\<close>.
  \<^item> The clock (\<^verbatim>\<open>datetime.now\<close>) and the random source (\<^verbatim>\<open>uuid.uuid4\<close>) are
    read by the caller and passed in as arguments.
  \<^item> Numbers are Python's unbounded integers; a float occurs only with an integral
    value (the \<^verbatim>\<open>1.0\<close> of a rule's confidence).
\<close>

section \<open>Bytes, digits and the two digests of hashlib\<close>

definition encode :: "string \<Rightarrow> nat list" where
  "encode s = concat (map (\<lambda>c. if (of_char c :: nat) < 128 then [of_char c]
       else [192 + of_char c div 64, 128 + of_char c mod 64]) s)"

definition hexdigit :: "nat \<Rightarrow> char" where
  "hexdigit n = ''0123456789abcdef'' ! (n mod 16)"

definition hex8 :: "nat \<Rightarrow> string" where
  "hex8 w = map (\<lambda>k. hexdigit (w div 16 ^ k)) [7, 6, 5, 4, 3, 2, 1, 0]"

definition add32 :: "nat \<Rightarrow> nat \<Rightarrow> nat" where
  "add32 x y = (x + y) mod 2 ^ 32"

definition not32 :: "nat \<Rightarrow> nat" where
  "not32 x = 2 ^ 32 - 1 - x"

definition rotr32 :: "nat \<Rightarrow> nat \<Rightarrow> nat" where
  "rotr32 n x = x div 2 ^ n + (x mod 2 ^ n) * 2 ^ (32 - n)"

definition rotl32 :: "nat \<Rightarrow> nat \<Rightarrow> nat" where
  "rotl32 n x = rotr32 (32 - n) x"

text \<open>Both digests pad the message with a one bit, zeros up to 56 modulo 64 bytes, and
  the bit length in eight bytes.\<close>

definition md_pad :: "nat list \<Rightarrow> nat list" where
  "md_pad m = m @ [128] @ replicate ((119 - length m mod 64) mod 64) 0"

subsection \<open>SHA-256 (FIPS 180-4), on 32-bit words held as naturals\<close>

definition K256 :: "nat list" where
  "K256 = [
    1116352408, 1899447441, 3049323471, 3921009573, 961987163, 1508970993,
    2453635748, 2870763221, 3624381080, 310598401, 607225278, 1426881987,
    1925078388, 2162078206, 2614888103, 3248222580, 3835390401, 4022224774,
    264347078, 604807628, 770255983, 1249150122, 1555081692, 1996064986,
    2554220882, 2821834349, 2952996808, 3210313671, 3336571891, 3584528711,
    113926993, 338241895, 666307205, 773529912, 1294757372, 1396182291,
    1695183700, 1986661051, 2177026350, 2456956037, 2730485921, 2820302411,
    3259730800, 3345764771, 3516065817, 3600352804, 4094571909, 275423344,
    430227734, 506948616, 659060556, 883997877, 958139571, 1322822218,
    1537002063, 1747873779, 1955562222, 2024104815, 2227730452, 2361852424,
    2428436474, 2756734187, 3204031479, 3329325298]"

type_synonym sha_state = "nat \<times> nat \<times> nat \<times> nat \<times> nat \<times> nat \<times> nat \<times> nat"

definition H256 :: sha_state where
  "H256 = (1779033703, 3144134277, 1013904242, 2773480762,
           1359893119, 2600822924, 528734635, 1541459225)"

definition ssig0 :: "nat \<Rightarrow> nat" where
  "ssig0 x = rotr32 7 x XOR rotr32 18 x XOR x div 2 ^ 3"

definition ssig1 :: "nat \<Rightarrow> nat" where
  "ssig1 x = rotr32 17 x XOR rotr32 19 x XOR x div 2 ^ 10"

definition bsig0 :: "nat \<Rightarrow> nat" where
  "bsig0 x = rotr32 2 x XOR rotr32 13 x XOR rotr32 22 x"

definition bsig1 :: "nat \<Rightarrow> nat" where
  "bsig1 x = rotr32 6 x XOR rotr32 11 x XOR rotr32 25 x"

definition ch :: "nat \<Rightarrow> nat \<Rightarrow> nat \<Rightarrow> nat" where
  "ch x y z = (x AND y) XOR (not32 x AND z)"

definition maj :: "nat \<Rightarrow> nat \<Rightarrow> nat \<Rightarrow> nat" where
  "maj x y z = (x AND y) XOR (x AND z) XOR (y AND z)"

fun be_words :: "nat list \<Rightarrow> nat list" where
  "be_words (a # b # c # d # r) = (((a * 256 + b) * 256 + c) * 256 + d) # be_words r"
| "be_words _ = []"

fun sha_step :: "nat \<Rightarrow> nat \<Rightarrow> sha_state \<Rightarrow> sha_state" where
  "sha_step t1 t2 (a, b, c, d, e, f, g, h) = (add32 t1 t2, a, b, c, add32 d t1, e, f, g)"

fun sha_round :: "nat \<Rightarrow> nat \<Rightarrow> sha_state \<Rightarrow> sha_state" where
  "sha_round k w (a, b, c, d, e, f, g, h) =
     sha_step ((h + bsig1 e + ch e f g + k + w) mod 2 ^ 32) (add32 (bsig0 a) (maj a b c))
       (a, b, c, d, e, f, g, h)"

text \<open>The message schedule is kept as a window of the last sixteen words: its head is
  the word of the current round, and the word sixteen rounds ahead is appended.\<close>

fun sha_rounds :: "nat list \<Rightarrow> nat list \<Rightarrow> sha_state \<Rightarrow> sha_state" where
  "sha_rounds [] win s = s"
| "sha_rounds (k # ks) win s =
     sha_rounds ks
       (tl win @ [(hd win + ssig0 (win ! 1) + win ! 9 + ssig1 (win ! 14)) mod 2 ^ 32])
       (sha_round k (hd win) s)"

fun sha_add :: "sha_state \<Rightarrow> sha_state \<Rightarrow> sha_state" where
  "sha_add (a, b, c, d, e, f, g, h) (a', b', c', d', e', f', g', h') =
     (add32 a a', add32 b b', add32 c c', add32 d d',
      add32 e e', add32 f f', add32 g g', add32 h h')"

definition sha_compress :: "sha_state \<Rightarrow> nat list \<Rightarrow> sha_state" where
  "sha_compress s block = sha_add s (sha_rounds K256 (be_words block) s)"

function sha_blocks :: "sha_state \<Rightarrow> nat list \<Rightarrow> sha_state" where
  "sha_blocks s m =
     (if length m < 64 then s else sha_blocks (sha_compress s (take 64 m)) (drop 64 m))"
  by pat_completeness auto
termination
  by (relation "measure (\<lambda>(s, m). length m)") auto

declare sha_blocks.simps [simp del]

definition be_bytes8 :: "nat \<Rightarrow> nat list" where
  "be_bytes8 n = map (\<lambda>k. (n div 256 ^ k) mod 256) [7, 6, 5, 4, 3, 2, 1, 0]"

fun sha_hex :: "sha_state \<Rightarrow> string" where
  "sha_hex (a, b, c, d, e, f, g, h) =
     hex8 a @ hex8 b @ hex8 c @ hex8 d @ hex8 e @ hex8 f @ hex8 g @ hex8 h"

text \<open>\<^verbatim>\<open>hashlib.sha256(m).hexdigest()\<close>.\<close>

definition sha256_hexdigest :: "nat list \<Rightarrow> string" where
  "sha256_hexdigest m = sha_hex (sha_blocks H256 (md_pad m @ be_bytes8 (8 * length m)))"

subsection \<open>MD5 (RFC 1321)\<close>

definition T_md5 :: "nat list" where
  "T_md5 = [
    3614090360, 3905402710, 606105819, 3250441966, 4118548399, 1200080426,
    2821735955, 4249261313, 1770035416, 2336552879, 4294925233, 2304563134,
    1804603682, 4254626195, 2792965006, 1236535329, 4129170786, 3225465664,
    643717713, 3921069994, 3593408605, 38016083, 3634488961, 3889429448,
    568446438, 3275163606, 4107603335, 1163531501, 2850285829, 4243563512,
    1735328473, 2368359562, 4294588738, 2272392833, 1839030562, 4259657740,
    2763975236, 1272893353, 4139469664, 3200236656, 681279174, 3936430074,
    3572445317, 76029189, 3654602809, 3873151461, 530742520, 3299628645,
    4096336452, 1126891415, 2878612391, 4237533241, 1700485571, 2399980690,
    4293915773, 2240044497, 1873313359, 4264355552, 2734768916, 1309151649,
    4149444226, 3174756917, 718787259, 3951481745]"

definition S_md5 :: "nat list" where
  "S_md5 = [
    7, 12, 17, 22, 7, 12, 17, 22, 7, 12, 17, 22, 7, 12, 17, 22,
    5, 9, 14, 20, 5, 9, 14, 20, 5, 9, 14, 20, 5, 9, 14, 20,
    4, 11, 16, 23, 4, 11, 16, 23, 4, 11, 16, 23, 4, 11, 16, 23,
    6, 10, 15, 21, 6, 10, 15, 21, 6, 10, 15, 21, 6, 10, 15, 21]"

type_synonym md5_state = "nat \<times> nat \<times> nat \<times> nat"

definition md5_init :: md5_state where
  "md5_init = (1732584193, 4023233417, 2562383102, 271733878)"

definition md5_f :: "nat \<Rightarrow> nat \<Rightarrow> nat \<Rightarrow> nat \<Rightarrow> nat" where
  "md5_f i b c d =
     (if i < 16 then (b AND c) OR (not32 b AND d)
      else if i < 32 then (d AND b) OR (not32 d AND c)
      else if i < 48 then b XOR c XOR d
      else c XOR (b OR not32 d))"

definition md5_g :: "nat \<Rightarrow> nat" where
  "md5_g i =
     (if i < 16 then i
      else if i < 32 then (5 * i + 1) mod 16
      else if i < 48 then (3 * i + 5) mod 16
      else (7 * i) mod 16)"

fun le_words :: "nat list \<Rightarrow> nat list" where
  "le_words (a # b # c # d # r) = (((d * 256 + c) * 256 + b) * 256 + a) # le_words r"
| "le_words _ = []"

fun md5_step :: "nat \<Rightarrow> nat list \<Rightarrow> md5_state \<Rightarrow> md5_state" where
  "md5_step i ws (a, b, c, d) =
     (d, add32 b (rotl32 (S_md5 ! i) ((a + md5_f i b c d + T_md5 ! i + ws ! md5_g i) mod 2 ^ 32)),
      b, c)"

fun md5_rounds :: "nat list \<Rightarrow> nat list \<Rightarrow> md5_state \<Rightarrow> md5_state" where
  "md5_rounds [] ws s = s"
| "md5_rounds (i # is) ws s = md5_rounds is ws (md5_step i ws s)"

fun md5_add :: "md5_state \<Rightarrow> md5_state \<Rightarrow> md5_state" where
  "md5_add (a, b, c, d) (a', b', c', d') = (add32 a a', add32 b b', add32 c c', add32 d d')"

definition md5_compress :: "md5_state \<Rightarrow> nat list \<Rightarrow> md5_state" where
  "md5_compress s block = md5_add s (md5_rounds [0..<64] (le_words block) s)"

function md5_blocks :: "md5_state \<Rightarrow> nat list \<Rightarrow> md5_state" where
  "md5_blocks s m =
     (if length m < 64 then s else md5_blocks (md5_compress s (take 64 m)) (drop 64 m))"
  by pat_completeness auto
termination
  by (relation "measure (\<lambda>(s, m). length m)") auto

declare md5_blocks.simps [simp del]

definition le_hex8 :: "nat \<Rightarrow> string" where
  "le_hex8 w = map (\<lambda>k. hexdigit (w div 16 ^ k)) [1, 0, 3, 2, 5, 4, 7, 6]"

fun md5_hex :: "md5_state \<Rightarrow> string" where
  "md5_hex (a, b, c, d) = le_hex8 a @ le_hex8 b @ le_hex8 c @ le_hex8 d"

text \<open>\<^verbatim>\<open>hashlib.md5(m).hexdigest()\<close>.\<close>

definition md5_hexdigest :: "nat list \<Rightarrow> string" where
  "md5_hexdigest m =
     md5_hex (md5_blocks md5_init (md_pad m @ rev (be_bytes8 ((8 * length m) mod 2 ^ 64))))"

section \<open>Python values\<close>

subsection \<open>Exceptions\<close>

text \<open>
  The exceptions of the interpreter and of \<^verbatim>\<open>glassbox/exceptions.py\<close>, each with the
  text \<^verbatim>\<open>str(e)\<close> is built from. \<open>Unmodelled\<close> is not an exception of Python: it marks
  a call of a library function outside the fragment this theory defines (a regular
  expression with other operators, an ISO string of another layout). No handler of the
  embedding catches it.
\<close>

datatype pyexc =
    TypeError string
  | ValueError string
  | NameError string
  | AttributeError string
  | OverflowError string
  | KeyError string
  | DSLParserException string "(nat \<times> nat) option"
  | RuleExecutionException string "string option"
  | ValidationException string "string option"
  | EvidenceException string "string option"
  | AuditException string "string option"
  | Unmodelled string

definition digit_char :: "nat \<Rightarrow> char" where
  "digit_char n = ''0123456789'' ! (n mod 10)"

function str_nat :: "nat \<Rightarrow> string" where
  "str_nat n = (if n < 10 then [digit_char n] else str_nat (n div 10) @ [digit_char n])"
  by pat_completeness auto
termination
  by (relation "measure (\<lambda>n. n)") auto

declare str_nat.simps [simp del]

definition str_int :: "int \<Rightarrow> string" where
  "str_int i = (if i < 0 then CHR ''-'' # str_nat (nat (- i)) else str_nat (nat i))"

text \<open>The constructors of \<^verbatim>\<open>exceptions.py\<close> prefix the message with the kind of error
  and, when given, the position, rule, field or record it is about.\<close>

fun exc_str :: "pyexc \<Rightarrow> string" where
  "exc_str (TypeError m) = m"
| "exc_str (ValueError m) = m"
| "exc_str (NameError m) = m"
| "exc_str (AttributeError m) = m"
| "exc_str (OverflowError m) = m"
| "exc_str (KeyError m) = m"
| "exc_str (DSLParserException m None) = ''DSL Parser Error: '' @ m"
| "exc_str (DSLParserException m (Some (l, c))) =
     ''DSL Parser Error at line '' @ str_nat l @ '', column '' @ str_nat c @ '': '' @ m"
| "exc_str (RuleExecutionException m r) =
     (if r = None \<or> r = Some [] then ''Rule Execution Error: '' @ m
      else ''Rule Execution Error (Rule: '' @ the r @ ''): '' @ m)"
| "exc_str (ValidationException m f) =
     (if f = None \<or> f = Some [] then ''Validation Error: '' @ m
      else ''Validation Error (Field: '' @ the f @ ''): '' @ m)"
| "exc_str (EvidenceException m i) =
     (if i = None \<or> i = Some [] then ''Evidence Error: '' @ m
      else ''Evidence Error (ID: '' @ the i @ ''): '' @ m)"
| "exc_str (AuditException m i) =
     (if i = None \<or> i = Some [] then ''Audit Error: '' @ m
      else ''Audit Error (ID: '' @ the i @ ''): '' @ m)"
| "exc_str (Unmodelled m) = m"

subsection \<open>Dates and times\<close>

text \<open>A \<^verbatim>\<open>datetime\<close>; \<open>utcoffset\<close> is \<open>None\<close> for a naive value and the offset of its
  \<^verbatim>\<open>tzinfo\<close> in seconds otherwise (\<^verbatim>\<open>timezone.utc\<close> is \<open>Some 0\<close>).\<close>

record datetime =
  year :: nat
  month :: nat
  day :: nat
  hour :: nat
  minute :: nat
  second :: nat
  microsecond :: nat
  utcoffset :: "int option"

definition is_leap :: "nat \<Rightarrow> bool" where
  "is_leap y = (y mod 4 = 0 \<and> (y mod 100 \<noteq> 0 \<or> y mod 400 = 0))"

definition days_in_month :: "nat \<Rightarrow> nat \<Rightarrow> nat" where
  "days_in_month y m =
     (if m = 2 then (if is_leap y then 29 else 28)
      else if m = 4 \<or> m = 6 \<or> m = 9 \<or> m = 11 then 30 else 31)"

definition valid_datetime :: "datetime \<Rightarrow> bool" where
  "valid_datetime d =
     (1 \<le> year d \<and> year d \<le> 9999 \<and> 1 \<le> month d \<and> month d \<le> 12 \<and>
      1 \<le> day d \<and> day d \<le> days_in_month (year d) (month d) \<and>
      hour d < 24 \<and> minute d < 60 \<and> second d < 60 \<and> microsecond d < 1000000 \<and>
      (case utcoffset d of None \<Rightarrow> True | Some s \<Rightarrow> - 86400 < s \<and> s < 86400))"

definition zfill2 :: "nat \<Rightarrow> string" where
  "zfill2 n = [digit_char (n div 10), digit_char n]"

definition zfill4 :: "nat \<Rightarrow> string" where
  "zfill4 n = [digit_char (n div 1000), digit_char (n div 100), digit_char (n div 10),
     digit_char n]"

definition zfill6 :: "nat \<Rightarrow> string" where
  "zfill6 n = [digit_char (n div 100000), digit_char (n div 10000), digit_char (n div 1000),
     digit_char (n div 100), digit_char (n div 10), digit_char n]"

definition format_offset :: "int option \<Rightarrow> string" where
  "format_offset off =
     (case off of
        None \<Rightarrow> []
      | Some s \<Rightarrow>
          (if s < 0 then ''-'' else ''+'') @ zfill2 (nat \<bar>s\<bar> div 3600) @ '':'' @
          zfill2 (nat \<bar>s\<bar> div 60 mod 60) @
          (if nat \<bar>s\<bar> mod 60 \<noteq> 0 then '':'' @ zfill2 (nat \<bar>s\<bar> mod 60) else []))"

text \<open>\<^verbatim>\<open>d.isoformat(sep)\<close>: the fraction is printed only when it is not zero.\<close>

definition isoformat_sep :: "char \<Rightarrow> datetime \<Rightarrow> string" where
  "isoformat_sep sep d =
     zfill4 (year d) @ ''-'' @ zfill2 (month d) @ ''-'' @ zfill2 (day d) @ [sep] @
     zfill2 (hour d) @ '':'' @ zfill2 (minute d) @ '':'' @ zfill2 (second d) @
     (if microsecond d \<noteq> 0 then ''.'' @ zfill6 (microsecond d) else []) @
     format_offset (utcoffset d)"

definition isoformat :: "datetime \<Rightarrow> string" where
  "isoformat d = isoformat_sep CHR ''T'' d"

definition is_digit :: "char \<Rightarrow> bool" where
  "is_digit c = (48 \<le> (of_char c :: nat) \<and> (of_char c :: nat) \<le> 57)"

definition parse_digits :: "string \<Rightarrow> nat option" where
  "parse_digits s =
     (if s \<noteq> [] \<and> list_all is_digit s
      then Some (foldl (\<lambda>a c. 10 * a + (of_char c - 48)) 0 s) else None)"

text \<open>The clock part \<^verbatim>\<open>HH[:MM[:SS[.fff[fff]]]]\<close>, as hour, minute, second and
  microsecond.\<close>

definition parse_hh_mm_ss_ff :: "string \<Rightarrow> (nat \<times> nat \<times> nat \<times> nat) option" where
  "parse_hh_mm_ss_ff t =
     (let n = length t in
      if n = 2 then
        (case parse_digits t of Some h \<Rightarrow> Some (h, 0, 0, 0) | None \<Rightarrow> None)
      else if n = 5 \<and> t ! 2 = CHR '':'' then
        (case (parse_digits (take 2 t), parse_digits (drop 3 t)) of
           (Some h, Some m) \<Rightarrow> Some (h, m, 0, 0) | _ \<Rightarrow> None)
      else if (n = 8 \<or> n = 12 \<or> n = 15) \<and> t ! 2 = CHR '':'' \<and> t ! 5 = CHR '':''
              \<and> (n = 8 \<or> t ! 8 = CHR ''.'') then
        (case (parse_digits (take 2 t), parse_digits (take 2 (drop 3 t)),
               parse_digits (take 2 (drop 6 t)),
               if n = 8 then Some 0 else parse_digits (drop 9 t)) of
           (Some h, Some m, Some s, Some f) \<Rightarrow> Some (h, m, s, if n = 12 then f * 1000 else f)
         | _ \<Rightarrow> None)
      else None)"

text \<open>The offset \<^verbatim>\<open>HH:MM[:SS]\<close> after the sign, in seconds.\<close>

definition parse_offset :: "string \<Rightarrow> nat option" where
  "parse_offset t =
     (if length t = 5 \<or> length t = 8 then
        (case parse_hh_mm_ss_ff t of
           Some (h, m, s, f) \<Rightarrow> Some (h * 3600 + m * 60 + s) | None \<Rightarrow> None)
      else None)"

definition is_sign :: "char \<Rightarrow> bool" where
  "is_sign c = (c = CHR ''+'' \<or> c = CHR ''-'')"

text \<open>The layouts \<^verbatim>\<open>YYYY-MM-DD\<close> and \<^verbatim>\<open>YYYY-MM-DD*HH[:MM[:SS[.fff[fff]]]][+HH:MM[:SS]]\<close>
  (\<open>*\<close> is any one character), with the fields not yet checked for their ranges.\<close>

definition parse_iso :: "string \<Rightarrow> datetime option" where
  "parse_iso s =
     (if length s < 10 \<or> s ! 4 \<noteq> CHR ''-'' \<or> s ! 7 \<noteq> CHR ''-'' then None
      else
        (case (parse_digits (take 4 s), parse_digits (take 2 (drop 5 s)),
               parse_digits (take 2 (drop 8 s))) of
           (Some y, Some mo, Some d) \<Rightarrow>
             (if length s = 10 then
                Some \<lparr>year = y, month = mo, day = d, hour = 0, minute = 0, second = 0,
                      microsecond = 0, utcoffset = None\<rparr>
              else
                (let t = drop 11 s; clock = takeWhile (\<lambda>c. \<not> is_sign c) t;
                     zone = dropWhile (\<lambda>c. \<not> is_sign c) t
                 in case parse_hh_mm_ss_ff clock of
                      None \<Rightarrow> None
                    | Some (h, mi, se, us) \<Rightarrow>
                        (if zone = [] then
                           Some \<lparr>year = y, month = mo, day = d, hour = h, minute = mi,
                                 second = se, microsecond = us, utcoffset = None\<rparr>
                         else
                           (case parse_offset (tl zone) of
                              None \<Rightarrow> None
                            | Some off \<Rightarrow>
                                Some \<lparr>year = y, month = mo, day = d, hour = h, minute = mi,
                                      second = se, microsecond = us,
                                      utcoffset = Some (if hd zone = CHR ''-'' then - int off
                                                        else int off)\<rparr>))))
         | _ \<Rightarrow> None))"

text \<open>\<^verbatim>\<open>datetime.fromisoformat\<close>. A string that does not start with the four digits of
  a year is refused; one of the layouts above is read and its fields are checked; every
  other layout is outside the embedding.\<close>

definition fromisoformat :: "string \<Rightarrow> pyexc + datetime" where
  "fromisoformat s =
     (if length s < 4 \<or> \<not> list_all is_digit (take 4 s)
      then Inl (ValueError ''Invalid isoformat string'')
      else
        (case parse_iso s of
           None \<Rightarrow> Inl (Unmodelled ''datetime.fromisoformat'')
         | Some d \<Rightarrow> if valid_datetime d then Inr d else Inl (ValueError ''value out of range'')))"

text \<open>\<^verbatim>\<open>s.replace(old, new)\<close> for a one-character \<^verbatim>\<open>old\<close>.\<close>

definition replace_char :: "char \<Rightarrow> string \<Rightarrow> string \<Rightarrow> string" where
  "replace_char old new s = concat (map (\<lambda>c. if c = old then new else [c]) s)"

text \<open>The proleptic Gregorian ordinal of a date (1 is 0001-01-01), and from it the
  microseconds a datetime counts from the start of year 1: of UTC when it is aware, of
  its own clock when it is naive.\<close>

definition days_before_year :: "nat \<Rightarrow> nat" where
  "days_before_year y = (y - 1) * 365 + (y - 1) div 4 - (y - 1) div 100 + (y - 1) div 400"

definition days_before_month :: "nat \<Rightarrow> nat \<Rightarrow> nat" where
  "days_before_month y m =
     sum_list (take (m - 1) [31, if is_leap y then 29 else 28, 31, 30, 31, 30, 31, 31, 30, 31, 30, 31])"

definition toordinal :: "datetime \<Rightarrow> nat" where
  "toordinal d = days_before_year (year d) + days_before_month (year d) (month d) + day d"

definition micros :: "datetime \<Rightarrow> int" where
  "micros d =
     ((int (toordinal d) * 86400
        + int (hour d * 3600 + minute d * 60 + second d)
        - (case utcoffset d of None \<Rightarrow> 0 | Some s \<Rightarrow> s)) * 1000000)
     + int (microsecond d)"


subsection \<open>Values\<close>

text \<open>The values the SDK handles: those of JSON (a dict is the list of its items in
  insertion order, with string keys), and \<^verbatim>\<open>datetime\<close>. Of the floats, the embedding has
  those of integral value from \<open>- (2 ^ 53)\<close> to \<open>2 ^ 53 - 1\<close>, each of which is a float exactly
  and is printed with all its digits: \<open>VFloat w\<close> is the float of value \<open>sint w\<close>.\<close>

datatype pyval =
    VNone
  | VBool bool
  | VInt int
  | VFloat "54 word"
  | VStr string
  | VList "pyval list"
  | VDict "(string \<times> pyval) list"
  | VDatetime datetime

type_synonym pydict = "(string \<times> pyval) list"

text \<open>\<^verbatim>\<open>key in d\<close>, \<^verbatim>\<open>d.get(key)\<close> and \<^verbatim>\<open>d[key] = v\<close> on the items of a dict.\<close>

definition dict_has :: "pydict \<Rightarrow> string \<Rightarrow> bool" where
  "dict_has d k = (map_of d k \<noteq> None)"

definition dict_get :: "pydict \<Rightarrow> string \<Rightarrow> pyval option" where
  "dict_get d k = map_of d k"



fun type_name :: "pyval \<Rightarrow> string" where
  "type_name VNone = ''NoneType''"
| "type_name (VBool _) = ''bool''"
| "type_name (VInt _) = ''int''"
| "type_name (VFloat _) = ''float''"
| "type_name (VStr _) = ''str''"
| "type_name (VList _) = ''list''"
| "type_name (VDict _) = ''dict''"
| "type_name (VDatetime _) = ''datetime.datetime''"

text \<open>\<^verbatim>\<open>bool(v)\<close>.\<close>

fun truthy :: "pyval \<Rightarrow> bool" where
  "truthy VNone = False"
| "truthy (VBool b) = b"
| "truthy (VInt i) = (i \<noteq> 0)"
| "truthy (VFloat w) = (w \<noteq> 0)"
| "truthy (VStr s) = (s \<noteq> [])"
| "truthy (VList xs) = (xs \<noteq> [])"
| "truthy (VDict d) = (d \<noteq> [])"
| "truthy (VDatetime _) = True"

text \<open>The number a bool, int or float stands for in a comparison.\<close>

fun num_of :: "pyval \<Rightarrow> int option" where
  "num_of (VBool b) = Some (if b then 1 else 0)"
| "num_of (VInt i) = Some i"
| "num_of (VFloat w) = Some (sint w)"
| "num_of _ = None"

text \<open>\<^verbatim>\<open>a == b\<close>. Numbers compare by value, containers by their elements, an aware
  datetime never equals a naive one, and values of unrelated types are unequal.\<close>

fun py_eq :: "pyval \<Rightarrow> pyval \<Rightarrow> bool"
  and py_eq_list :: "pyval list \<Rightarrow> pyval list \<Rightarrow> bool"
  and py_eq_items :: "pydict \<Rightarrow> pydict \<Rightarrow> bool" where
  "py_eq VNone b = (b = VNone)"
| "py_eq (VBool x) b = (num_of b = Some (if x then 1 else 0))"
| "py_eq (VInt x) b = (num_of b = Some x)"
| "py_eq (VFloat x) b = (num_of b = Some (sint x))"
| "py_eq (VStr x) b = (b = VStr x)"
| "py_eq (VList xs) b = (case b of VList ys \<Rightarrow> py_eq_list xs ys | _ \<Rightarrow> False)"
| "py_eq (VDict d) b =
     (case b of VDict e \<Rightarrow> length d = length e \<and> py_eq_items d e | _ \<Rightarrow> False)"
| "py_eq (VDatetime x) b =
     (case b of
        VDatetime y \<Rightarrow> (utcoffset x = None) = (utcoffset y = None) \<and> micros x = micros y
      | _ \<Rightarrow> False)"
| "py_eq_list [] ys = (ys = [])"
| "py_eq_list (x # xs) ys =
     (case ys of [] \<Rightarrow> False | y # ys' \<Rightarrow> py_eq x y \<and> py_eq_list xs ys')"
| "py_eq_items [] e = True"
| "py_eq_items (kv # d) e =
     (case map_of e (fst kv) of None \<Rightarrow> False | Some w \<Rightarrow> py_eq (snd kv) w \<and> py_eq_items d e)"

text \<open>\<^verbatim>\<open>v in xs\<close> for a list.\<close>

definition py_in :: "pyval \<Rightarrow> pyval list \<Rightarrow> bool" where
  "py_in v xs = list_ex (py_eq v) xs"

datatype cmp_op = Lt | Le | Gt | Ge

fun cmp_sym :: "cmp_op \<Rightarrow> string" where
  "cmp_sym Lt = ''<''"
| "cmp_sym Le = ''<=''"
| "cmp_sym Gt = ''>''"
| "cmp_sym Ge = ''>=''"

fun cmp_int :: "cmp_op \<Rightarrow> int \<Rightarrow> int \<Rightarrow> bool" where
  "cmp_int Lt x y = (x < y)"
| "cmp_int Le x y = (x \<le> y)"
| "cmp_int Gt x y = (x > y)"
| "cmp_int Ge x y = (x \<ge> y)"

fun cmp_str :: "cmp_op \<Rightarrow> string \<Rightarrow> string \<Rightarrow> bool" where
  "cmp_str Lt x y = (x < y)"
| "cmp_str Le x y = (x \<le> y)"
| "cmp_str Gt x y = (x > y)"
| "cmp_str Ge x y = (x \<ge> y)"

definition not_supported :: "cmp_op \<Rightarrow> pyval \<Rightarrow> pyval \<Rightarrow> pyexc" where
  "not_supported op a b =
     TypeError ([CHR 0x27] @ cmp_sym op @ [CHR 0x27] @ '' not supported between instances of ''
       @ [CHR 0x27] @ type_name a @ [CHR 0x27] @ '' and '' @ [CHR 0x27] @ type_name b @ [CHR 0x27])"

text \<open>An ordering comparison \<^verbatim>\<open>a < b\<close>, \<^verbatim>\<open>a <= b\<close>, \<^verbatim>\<open>a > b\<close> or \<^verbatim>\<open>a >= b\<close>. Numbers,
  strings, lists and datetimes are ordered among themselves; every other pair raises
  TypeError, and so does an aware datetime against a naive one. Lists compare at their
  first unequal elements, or by length when there are none.\<close>

fun py_cmp :: "cmp_op \<Rightarrow> pyval \<Rightarrow> pyval \<Rightarrow> pyexc + bool"
  and py_cmp_list :: "cmp_op \<Rightarrow> pyval list \<Rightarrow> pyval list \<Rightarrow> pyexc + bool" where
  "py_cmp op (VList xs) b =
     (case b of VList ys \<Rightarrow> py_cmp_list op xs ys | _ \<Rightarrow> Inl (not_supported op (VList xs) b))"
| "py_cmp op (VStr x) b =
     (case b of VStr y \<Rightarrow> Inr (cmp_str op x y) | _ \<Rightarrow> Inl (not_supported op (VStr x) b))"
| "py_cmp op (VDatetime x) b =
     (case b of
        VDatetime y \<Rightarrow>
          (if (utcoffset x = None) = (utcoffset y = None)
           then Inr (cmp_int op (micros x) (micros y))
           else Inl (TypeError ''can't compare offset-naive and offset-aware datetimes''))
      | _ \<Rightarrow> Inl (not_supported op (VDatetime x) b))"
| "py_cmp op a b =
     (case (num_of a, num_of b) of
        (Some x, Some y) \<Rightarrow> Inr (cmp_int op x y)
      | _ \<Rightarrow> Inl (not_supported op a b))"
| "py_cmp_list op [] ys = Inr (cmp_int op 0 (int (length ys)))"
| "py_cmp_list op (x # xs) ys =
     (case ys of
        [] \<Rightarrow> Inr (cmp_int op 1 0)
      | y # ys' \<Rightarrow> if py_eq x y then py_cmp_list op xs ys' else py_cmp op x y)"


subsection \<open>Text of a value\<close>

definition join :: "string \<Rightarrow> string list \<Rightarrow> string" where
  "join sep xs = (case xs of [] \<Rightarrow> [] | x # r \<Rightarrow> x @ concat (map (\<lambda>y. sep @ y) r))"

text \<open>\<^verbatim>\<open>repr\<close> of a string: in single quotes, unless it holds a single quote and no
  double quote; the quote, the backslash and the characters that do not print are
  escaped.\<close>

definition repr_char :: "char \<Rightarrow> char \<Rightarrow> string" where
  "repr_char q c =
     (let n = (of_char c :: nat) in
      if c = q \<or> n = 92 then [CHR 0x5C, c]
      else if n = 9 then [CHR 0x5C, CHR ''t'']
      else if n = 10 then [CHR 0x5C, CHR ''n'']
      else if n = 13 then [CHR 0x5C, CHR ''r'']
      else if n < 32 \<or> (127 \<le> n \<and> n \<le> 160) \<or> n = 173
        then [CHR 0x5C, CHR ''x'', hexdigit (n div 16), hexdigit n]
      else [c])"

definition repr_str :: "string \<Rightarrow> string" where
  "repr_str s =
     (let q = (if CHR 0x27 \<in> set s \<and> CHR 0x22 \<notin> set s then CHR 0x22 else CHR 0x27)
      in [q] @ concat (map (repr_char q) s) @ [q])"

definition repr_datetime :: "datetime \<Rightarrow> string" where
  "repr_datetime d =
     ''datetime.datetime('' @
     join '', '' (map str_nat
       ([year d, month d, day d, hour d, minute d] @
        (if microsecond d \<noteq> 0 then [second d, microsecond d]
         else if second d \<noteq> 0 then [second d] else []))) @
     (case utcoffset d of
        None \<Rightarrow> []
      | Some s \<Rightarrow>
          '', tzinfo=datetime.timezone'' @
          (if s = 0 then ''.utc''
           else if s < 0 then ''(datetime.timedelta(days=-1, seconds='' @ str_int (86400 + s) @ ''))''
           else ''(datetime.timedelta(seconds='' @ str_int s @ ''))'')) @
     '')''"

fun py_repr :: "pyval \<Rightarrow> string"
  and py_repr_list :: "pyval list \<Rightarrow> string list"
  and py_repr_items :: "pydict \<Rightarrow> string list" where
  "py_repr VNone = ''None''"
| "py_repr (VBool b) = (if b then ''True'' else ''False'')"
| "py_repr (VInt i) = str_int i"
| "py_repr (VFloat w) = str_int (sint w) @ ''.0''"
| "py_repr (VStr s) = repr_str s"
| "py_repr (VList xs) = ''['' @ join '', '' (py_repr_list xs) @ '']''"
| "py_repr (VDict d) = ''{'' @ join '', '' (py_repr_items d) @ ''}''"
| "py_repr (VDatetime d) = repr_datetime d"
| "py_repr_list [] = []"
| "py_repr_list (x # xs) = py_repr x # py_repr_list xs"
| "py_repr_items [] = []"
| "py_repr_items (kv # d) = (repr_str (fst kv) @ '': '' @ py_repr (snd kv)) # py_repr_items d"

text \<open>\<^verbatim>\<open>str(v)\<close>, also what an f-string puts in for \<^verbatim>\<open>{v}\<close>.\<close>

definition py_str :: "pyval \<Rightarrow> string" where
  "py_str v =
     (case v of VStr s \<Rightarrow> s | VDatetime d \<Rightarrow> isoformat_sep CHR '' '' d | _ \<Rightarrow> py_repr v)"

subsection \<open>Sequencing and the container operations that can raise\<close>

definition ebind :: "'e + 'a \<Rightarrow> ('a \<Rightarrow> 'e + 'b) \<Rightarrow> 'e + 'b" where
  "ebind m f = (case m of Inl e \<Rightarrow> Inl e | Inr x \<Rightarrow> f x)"

definition is_prefix :: "string \<Rightarrow> string \<Rightarrow> bool" where
  "is_prefix p s = (take (length p) s = p)"

text \<open>\<^verbatim>\<open>p in s\<close> for two strings.\<close>

fun is_substr :: "string \<Rightarrow> string \<Rightarrow> bool" where
  "is_substr p [] = (p = [])"
| "is_substr p (c # cs) = (is_prefix p (c # cs) \<or> is_substr p cs)"

text \<open>\<^verbatim>\<open>key in c\<close> for a string \<^verbatim>\<open>key\<close>: a key of a dict, an element of a list, a
  substring of a string; the other values are not containers.\<close>

definition py_contains :: "string \<Rightarrow> pyval \<Rightarrow> pyexc + bool" where
  "py_contains k c =
     (case c of
        VDict d \<Rightarrow> Inr (dict_has d k)
      | VList xs \<Rightarrow> Inr (py_in (VStr k) xs)
      | VStr s \<Rightarrow> Inr (is_substr k s)
      | _ \<Rightarrow> Inl (TypeError (''argument of type '' @ [CHR 0x27] @ type_name c @ [CHR 0x27]
                 @ '' is not iterable'')))"

text \<open>\<^verbatim>\<open>c[key]\<close> for a string \<^verbatim>\<open>key\<close>.\<close>

definition py_getitem :: "pyval \<Rightarrow> string \<Rightarrow> pyexc + pyval" where
  "py_getitem c k =
     (case c of
        VDict d \<Rightarrow> (case dict_get d k of Some v \<Rightarrow> Inr v | None \<Rightarrow> Inl (KeyError (repr_str k)))
      | VList xs \<Rightarrow> Inl (TypeError ''list indices must be integers or slices, not str'')
      | VStr s \<Rightarrow> Inl (TypeError ''string indices must be integers'')
      | _ \<Rightarrow> Inl (TypeError ([CHR 0x27] @ type_name c @ [CHR 0x27]
                 @ '' object is not subscriptable'')))"

text \<open>The elements \<^verbatim>\<open>for x in c\<close> runs over.\<close>

definition py_iter :: "pyval \<Rightarrow> pyexc + pyval list" where
  "py_iter c =
     (case c of
        VList xs \<Rightarrow> Inr xs
      | VDict d \<Rightarrow> Inr (map (\<lambda>kv. VStr (fst kv)) d)
      | VStr s \<Rightarrow> Inr (map (\<lambda>ch. VStr [ch]) s)
      | _ \<Rightarrow> Inl (TypeError ([CHR 0x27] @ type_name c @ [CHR 0x27] @ '' object is not iterable'')))"

section \<open>decision\_bundle.py: validation of a DecisionBundle\<close>

text \<open>The loop \<^verbatim>\<open>for field in required: if field not in c: raise ...\<close>; \<open>mk\<close> builds
  the exception for a missing field.\<close>

fun check_required :: "string list \<Rightarrow> (string \<Rightarrow> pyexc) \<Rightarrow> pyval \<Rightarrow> pyexc + unit" where
  "check_required [] mk c = Inr ()"
| "check_required (f # fs) mk c =
     ebind (py_contains f c) (\<lambda>present. if present then check_required fs mk c else Inl (mk f))"

definition rule_required_fields :: "string list" where
  "rule_required_fields = [''id'', ''name'', ''type'', ''definition'']"

definition valid_types :: "string list" where
  "valid_types = [''dsl'', ''expression'', ''decision_table'', ''decision_tree'']"

definition validate_rule :: "pyval \<Rightarrow> nat \<Rightarrow> pyexc + unit" where
  "validate_rule rule index =
     ebind (check_required rule_required_fields
              (\<lambda>f. ValidationException (''Missing required rule field: '' @ f)
                     (Some (''rules['' @ str_nat index @ ''].'' @ f))) rule)
       (\<lambda>_. ebind (py_getitem rule ''type'')
          (\<lambda>t. if \<not> py_in t (map VStr valid_types)
                then Inl (ValidationException (''Invalid rule type: '' @ py_str t)
                            (Some (''rules['' @ str_nat index @ ''].type'')))
                else Inr ()))"

definition decision_required_fields :: "string list" where
  "decision_required_fields = [''id'', ''ruleId'', ''input'', ''output'', ''timestamp'']"

definition validate_decision :: "pyval \<Rightarrow> nat \<Rightarrow> pyexc + unit" where
  "validate_decision decision index =
     ebind (check_required decision_required_fields
              (\<lambda>f. ValidationException (''Missing required decision field: '' @ f)
                     (Some (''decisions['' @ str_nat index @ ''].'' @ f))) decision)
       (\<lambda>_. ebind (py_getitem decision ''output'')
          (\<lambda>output. ebind (py_contains ''result'' output)
             (\<lambda>present. if \<not> present
                then Inl (ValidationException ''Missing output.result''
                            (Some (''decisions['' @ str_nat index @ ''].output.result'')))
                else Inr ())))"

text \<open>\<^verbatim>\<open>for i, x in enumerate(xs): check(x, i)\<close>, from index \<open>i\<close> on.\<close>

fun validate_each :: "(pyval \<Rightarrow> nat \<Rightarrow> pyexc + unit) \<Rightarrow> pyval list \<Rightarrow> nat \<Rightarrow> pyexc + unit" where
  "validate_each check [] i = Inr ()"
| "validate_each check (x # xs) i = ebind (check x i) (\<lambda>_. validate_each check xs (Suc i))"

definition top_required_fields :: "string list" where
  "top_required_fields = [''version'', ''metadata'', ''rules'', ''decisions'']"

definition required_metadata :: "string list" where
  "required_metadata = [''id'', ''name'', ''description'', ''created'', ''jurisdiction'', ''domain'']"

definition valid_domains :: "string list" where
  "valid_domains = [''finance'', ''health'', ''esg'', ''general'']"

text \<open>\<^verbatim>\<open>DecisionBundle._validate\<close> on the dict \<^verbatim>\<open>self._data\<close>.\<close>

definition validate :: "pydict \<Rightarrow> pyexc + unit" where
  "validate data =
     ebind (check_required top_required_fields
              (\<lambda>f. ValidationException (''Missing required field: '' @ f) (Some f)) (VDict data))
     (\<lambda>_. ebind (py_getitem (VDict data) ''version'')
     (\<lambda>version.
        if \<not> py_eq version (VStr ''1.0'')
        then Inl (ValidationException (''Unsupported version: '' @ py_str version) (Some ''version''))
        else
          ebind (py_getitem (VDict data) ''metadata'')
     (\<lambda>metadata. ebind (check_required required_metadata
              (\<lambda>f. ValidationException (''Missing required metadata field: '' @ f)
                     (Some (''metadata.'' @ f))) metadata)
     (\<lambda>_. ebind (py_getitem metadata ''domain'')
     (\<lambda>domain.
        if \<not> py_in domain (map VStr valid_domains)
        then Inl (ValidationException (''Invalid domain: '' @ py_str domain) (Some ''metadata.domain''))
        else
          ebind (py_getitem (VDict data) ''rules'')
     (\<lambda>rules. ebind (py_iter rules)
     (\<lambda>rs. ebind (validate_each validate_rule rs 0)
     (\<lambda>_. ebind (py_getitem (VDict data) ''decisions'')
     (\<lambda>decisions. ebind (py_iter decisions)
     (\<lambda>ds. validate_each validate_decision ds 0))))))))))"

text \<open>\<^verbatim>\<open>DecisionBundle(bundle_data)\<close>: the object exists only when validation returns;
  it is represented by its \<^verbatim>\<open>_data\<close>.\<close>

definition DecisionBundle :: "pydict \<Rightarrow> pyexc + pydict" where
  "DecisionBundle bundle_data = ebind (validate bundle_data) (\<lambda>_. Inr bundle_data)"

subsection \<open>What the validator is asked to refuse\<close>

text \<open>The shapes the data model gives the parts of a bundle: \<^verbatim>\<open>metadata\<close> is a
  mapping, \<^verbatim>\<open>rules\<close> and \<^verbatim>\<open>decisions\<close> are sequences of mappings, and the \<^verbatim>\<open>output\<close>
  of a decision is a mapping. \<open>violates\<close> collects the defects of invariant I4.\<close>

definition is_dict :: "pyval \<Rightarrow> bool" where
  "is_dict v = (case v of VDict _ \<Rightarrow> True | _ \<Rightarrow> False)"

definition lacks :: "string list \<Rightarrow> pyval \<Rightarrow> bool" where
  "lacks fs v = (case v of VDict d \<Rightarrow> list_ex (\<lambda>f. \<not> dict_has d f) fs | _ \<Rightarrow> True)"

definition type_outside :: "string list \<Rightarrow> string \<Rightarrow> pyval \<Rightarrow> bool" where
  "type_outside allowed k v =
     (case v of
        VDict d \<Rightarrow> (case dict_get d k of Some t \<Rightarrow> \<not> py_in t (map VStr allowed) | None \<Rightarrow> True)
      | _ \<Rightarrow> True)"

definition decision_shaped :: "pyval \<Rightarrow> bool" where
  "decision_shaped v =
     (case v of
        VDict d \<Rightarrow> (case dict_get d ''output'' of Some out \<Rightarrow> is_dict out | None \<Rightarrow> True)
      | _ \<Rightarrow> False)"

definition well_shaped :: "pydict \<Rightarrow> bool" where
  "well_shaped data =
     ((case dict_get data ''metadata'' of Some m \<Rightarrow> is_dict m | None \<Rightarrow> True) \<and>
      (case dict_get data ''rules'' of
         Some (VList rs) \<Rightarrow> list_all is_dict rs | Some _ \<Rightarrow> False | None \<Rightarrow> True) \<and>
      (case dict_get data ''decisions'' of
         Some (VList ds) \<Rightarrow> list_all decision_shaped ds | Some _ \<Rightarrow> False | None \<Rightarrow> True))"

definition rule_invalid :: "pyval \<Rightarrow> bool" where
  "rule_invalid r = (lacks rule_required_fields r \<or> type_outside valid_types ''type'' r)"

definition violates :: "pydict \<Rightarrow> bool" where
  "violates data =
     (lacks top_required_fields (VDict data)
      \<or> (case dict_get data ''version'' of Some v \<Rightarrow> \<not> py_eq v (VStr ''1.0'') | None \<Rightarrow> True)
      \<or> (case dict_get data ''metadata'' of
            Some m \<Rightarrow> lacks required_metadata m \<or> type_outside valid_domains ''domain'' m
          | None \<Rightarrow> True)
      \<or> (case dict_get data ''rules'' of Some (VList rs) \<Rightarrow> list_ex rule_invalid rs | _ \<Rightarrow> True)
      \<or> (case dict_get data ''decisions'' of
            Some (VList ds) \<Rightarrow> list_ex (lacks decision_required_fields) ds | _ \<Rightarrow> True))"

definition is_verr :: "pyexc + 'a \<Rightarrow> bool" where
  "is_verr r = (\<exists>m f. r = Inl (ValidationException m (Some f)) \<and> f \<noteq> [])"


section \<open>dsl\_parser.py: the evaluator of the DSL\<close>

subsection \<open>Regular expressions of the module re\<close>

text \<open>
  The fragment defined here: a sequence of single characters, escaped punctuation and the
  dot, each optionally followed by a star, with an optional \<^verbatim>\<open>^\<close> in front and an
  optional \<^verbatim>\<open>$\<close> at the end. The dot matches every character but the newline, and
  \<^verbatim>\<open>$\<close> matches at the end of the text or before a newline that ends it. A pattern
  with any other operator is \<open>Unmodelled\<close>.
\<close>

datatype ratom = AChar char | AAny

datatype ritem = One ratom | Star ratom

definition is_meta :: "char \<Rightarrow> bool" where
  "is_meta c = (c \<in> set ''.^$*+?{}[]|()'' \<or> c = CHR 0x5C)"

definition is_ascii_punct :: "char \<Rightarrow> bool" where
  "is_ascii_punct c =
     (let n = (of_char c :: nat) in
      (33 \<le> n \<and> n \<le> 47) \<or> (58 \<le> n \<and> n \<le> 64) \<or> (91 \<le> n \<and> n \<le> 96 \<and> n \<noteq> 95)
      \<or> (123 \<le> n \<and> n \<le> 126))"

text \<open>The first atom of a pattern and the rest of the pattern.\<close>

definition parse_atom :: "string \<Rightarrow> (ratom \<times> string) option" where
  "parse_atom p =
     (case p of
        [] \<Rightarrow> None
      | c # r \<Rightarrow>
          if c = CHR ''.'' then Some (AAny, r)
          else if c = CHR 0x5C then
            (case r of [] \<Rightarrow> None
             | e # r' \<Rightarrow> if is_ascii_punct e then Some (AChar e, r') else None)
          else if is_meta c then None
          else Some (AChar c, r))"

lemma parse_atom_shorter: "parse_atom p = Some (a, r) \<Longrightarrow> length r < length p"
  by (auto simp: parse_atom_def split: list.splits if_splits)

function parse_items :: "string \<Rightarrow> ritem list option" where
  "parse_items p =
     (if p = [] then Some []
      else
        (case parse_atom p of
           None \<Rightarrow> None
         | Some (a, r) \<Rightarrow>
             (if r \<noteq> [] \<and> hd r = CHR ''*'' then
                (if tl r \<noteq> [] \<and> hd (tl r) \<in> set ''*+?{'' then None
                 else map_option (\<lambda>is. Star a # is) (parse_items (tl r)))
              else map_option (\<lambda>is. One a # is) (parse_items r))))"
  by pat_completeness auto
termination
proof (relation "measure length")
  show "wf (measure length)" by simp
next
  fix p :: string and x2 x y
  assume "parse_atom p = Some x2" "(x, y) = x2" 
  then have "length y < length p" using parse_atom_shorter [of p x y] by simp
  then show "y \<noteq> [] \<and> hd y = CHR ''*'' \<Longrightarrow> \<not> (tl y \<noteq> [] \<and> hd (tl y) \<in> set ''*+?{'')
      \<Longrightarrow> (tl y, p) \<in> measure length"
    and "\<not> (y \<noteq> [] \<and> hd y = CHR ''*'') \<Longrightarrow> (y, p) \<in> measure length"
    by (cases y; simp)+
qed

declare parse_items.simps [simp del]

text \<open>A pattern as its anchor at the start, its items and its anchor at the end.\<close>

definition parse_regex :: "string \<Rightarrow> (bool \<times> ritem list \<times> bool) option" where
  "parse_regex p =
     (let a = (p \<noteq> [] \<and> hd p = CHR ''^'');
          p1 = (if a then tl p else p);
          e = (p1 \<noteq> [] \<and> last p1 = CHR ''$'');
          p2 = (if e then butlast p1 else p1)
      in if e \<and> p2 \<noteq> [] \<and> last p2 = CHR 0x5C then None
         else map_option (\<lambda>is. (a, is, e)) (parse_items p2))"

fun atom_ok :: "ratom \<Rightarrow> char \<Rightarrow> bool" where
  "atom_ok (AChar x) c = (c = x)"
| "atom_ok AAny c = (c \<noteq> CHR 0x0A)"

text \<open>Whether the items match a prefix of the text (the whole text up to a final
  newline, when anchored at the end).\<close>

fun match_here :: "ritem list \<Rightarrow> bool \<Rightarrow> string \<Rightarrow> bool" where
  "match_here [] e s = (\<not> e \<or> s = [] \<or> s = [CHR 0x0A])"
| "match_here (One a # r) e [] = False"
| "match_here (One a # r) e (c # cs) = (atom_ok a c \<and> match_here r e cs)"
| "match_here (Star a # r) e [] = match_here r e []"
| "match_here (Star a # r) e (c # cs) =
     (match_here r e (c # cs) \<or> (atom_ok a c \<and> match_here (Star a # r) e cs))"

fun suffixes_of :: "string \<Rightarrow> string list" where
  "suffixes_of [] = [[]]"
| "suffixes_of (c # cs) = (c # cs) # suffixes_of cs"

text \<open>\<^verbatim>\<open>bool(re.match(p, s))\<close> and \<^verbatim>\<open>bool(re.search(p, s))\<close>.\<close>

definition re_match :: "string \<Rightarrow> string \<Rightarrow> pyexc + bool" where
  "re_match p s =
     (case parse_regex p of
        None \<Rightarrow> Inl (Unmodelled ''re.match'')
      | Some (a, is, e) \<Rightarrow> Inr (match_here is e s))"

definition re_search :: "string \<Rightarrow> string \<Rightarrow> pyexc + bool" where
  "re_search p s =
     (case parse_regex p of
        None \<Rightarrow> Inl (Unmodelled ''re.search'')
      | Some (a, is, e) \<Rightarrow>
          Inr (if a then match_here is e s else list_ex (match_here is e) (suffixes_of s)))"

subsection \<open>The syntax tree\<close>

text \<open>The nodes the parser builds, one constructor for each \<^verbatim>\<open>'type'\<close> tag and its
  keys; \<open>Unknown_node\<close> and \<open>Unknown_condition\<close> stand for a tag the evaluator has no
  branch for. A number literal is an integer.\<close>

datatype node =
    Variable string
  | String_value string
  | Number_value int
  | Boolean_value bool
  | Datetime_value string
  | Unknown_node string

datatype condition =
    Simple_condition node string node
  | List_condition node "node list"
  | Pattern_condition node string node
  | Temporal_condition node string node
  | Compound_condition condition string condition
  | Not_condition condition
  | Variable_condition node
  | Unknown_condition string

datatype bexpr =
    Boolean_literal bool
  | Variable_expression node
  | Not_expression bexpr
  | Boolean_expression bexpr string bexpr

datatype consequence =
    Constraint node string node
  | In_constraint node "node list"
  | Not_in_constraint node "node list"
  | Between_constraint node node node
  | Requirement string node
  | Expression bexpr
  | Unknown_consequence string

datatype action = Action string node

text \<open>A tree of type \<^verbatim>\<open>rule\<close> with its condition and its \<^verbatim>\<open>consequence\<close> or
  \<^verbatim>\<open>action\<close> key, or a tree of another type.\<close>

datatype ast = Rule condition "consequence option" "action option" | Other_ast string

subsection \<open>Variables and operators\<close>

text \<open>\<^verbatim>\<open>s.split(sep)\<close> for a one-character separator.\<close>

fun split_on :: "char \<Rightarrow> string \<Rightarrow> string list" where
  "split_on sep [] = [[]]"
| "split_on sep (c # cs) =
     (if c = sep then [] # split_on sep cs
      else (c # hd (split_on sep cs)) # tl (split_on sep cs))"

text \<open>The loop of \<^verbatim>\<open>_get_variable_value\<close>: one mapping lookup for each part of the
  dotted name, and \<^verbatim>\<open>None\<close> as soon as the current value is not a mapping or lacks the
  part.\<close>

fun walk_parts :: "string list \<Rightarrow> pyval \<Rightarrow> pyval" where
  "walk_parts [] v = v"
| "walk_parts (part # parts) v =
     (case v of
        VDict d \<Rightarrow> (case dict_get d part of Some w \<Rightarrow> walk_parts parts w | None \<Rightarrow> VNone)
      | _ \<Rightarrow> VNone)"

definition get_variable_value :: "string \<Rightarrow> pydict \<Rightarrow> pyval" where
  "get_variable_value variable_name ctx = walk_parts (split_on CHR ''.'' variable_name) (VDict ctx)"

fun get_value :: "node \<Rightarrow> pydict \<Rightarrow> pyexc + pyval" where
  "get_value (Variable name) ctx = Inr (get_variable_value name ctx)"
| "get_value (String_value s) ctx = Inr (VStr s)"
| "get_value (Number_value n) ctx = Inr (VInt n)"
| "get_value (Boolean_value b) ctx = Inr (VBool b)"
| "get_value (Datetime_value s) ctx = Inr (VStr s)"
| "get_value (Unknown_node t) ctx = Inl (ValueError (''Unknown node type: '' @ t))"

text \<open>\<^verbatim>\<open>[self._get_value(v, context) for v in values]\<close>.\<close>

fun get_values :: "node list \<Rightarrow> pydict \<Rightarrow> pyexc + pyval list" where
  "get_values [] ctx = Inr []"
| "get_values (n # ns) ctx =
     ebind (get_value n ctx) (\<lambda>v. ebind (get_values ns ctx) (\<lambda>vs. Inr (v # vs)))"

text \<open>The clause \<^verbatim>\<open>except (TypeError, ValueError): return False\<close>.\<close>

definition except_type_value :: "pyexc + bool \<Rightarrow> pyexc + bool" where
  "except_type_value r =
     (case r of
        Inl (TypeError m) \<Rightarrow> Inr False
      | Inl (ValueError m) \<Rightarrow> Inr False
      | _ \<Rightarrow> r)"

definition no_attribute :: "pyval \<Rightarrow> string \<Rightarrow> pyexc" where
  "no_attribute v a =
     AttributeError ([CHR 0x27] @ type_name v @ [CHR 0x27] @ '' object has no attribute ''
       @ [CHR 0x27] @ a @ [CHR 0x27])"

text \<open>The branch \<^verbatim>\<open>LIKE\<close>: \<^verbatim>\<open>right.replace('%', '.*').replace('_', '.')\<close>, then a
  match of the pattern between \<^verbatim>\<open>^\<close> and \<^verbatim>\<open>$\<close> against \<^verbatim>\<open>str(left)\<close>. Only a string
  has this \<^verbatim>\<open>replace\<close>; that of a datetime refuses the arguments.\<close>

definition like :: "pyval \<Rightarrow> pyval \<Rightarrow> pyexc + bool" where
  "like left right =
     (case right of
        VStr p \<Rightarrow>
          re_match (''^'' @ replace_char CHR ''_'' ''.'' (replace_char CHR ''%'' ''.*'' p) @ ''$'')
            (py_str left)
      | VDatetime d \<Rightarrow> Inl (TypeError ''an integer is required (got type str)'')
      | _ \<Rightarrow> Inl (no_attribute right ''replace''))"

definition apply_operator :: "pyval \<Rightarrow> string \<Rightarrow> pyval \<Rightarrow> pyexc + bool" where
  "apply_operator left operator right =
     except_type_value
       (if operator = ''='' then Inr (py_eq left right)
        else if operator = ''!='' then Inr (\<not> py_eq left right)
        else if operator = ''>'' then py_cmp Gt left right
        else if operator = ''>='' then py_cmp Ge left right
        else if operator = ''<'' then py_cmp Lt left right
        else if operator = ''<='' then py_cmp Le left right
        else if operator = ''LIKE'' then like left right
        else Inr False)"

subsection \<open>Conditions\<close>

text \<open>The \<^verbatim>\<open>'result'\<close> entry of a result record, as a truth value.\<close>

definition result_of :: "pydict \<Rightarrow> bool" where
  "result_of r = (case dict_get r ''result'' of Some v \<Rightarrow> truthy v | None \<Rightarrow> False)"

definition evaluate_simple_condition :: "node \<Rightarrow> string \<Rightarrow> node \<Rightarrow> pydict \<Rightarrow> pyexc + pydict" where
  "evaluate_simple_condition left operator right ctx =
     ebind (get_value left ctx) (\<lambda>left_value.
     ebind (get_value right ctx) (\<lambda>right_value.
     ebind (apply_operator left_value operator right_value) (\<lambda>result.
       Inr [(''result'', VBool result), (''left'', left_value), (''operator'', VStr operator),
            (''right'', right_value)])))"

definition evaluate_list_condition :: "node \<Rightarrow> node list \<Rightarrow> pydict \<Rightarrow> pyexc + pydict" where
  "evaluate_list_condition variable vals ctx =
     ebind (get_value variable ctx) (\<lambda>variable_value.
     ebind (get_values vals ctx) (\<lambda>list_values.
       Inr [(''result'', VBool (py_in variable_value list_values)), (''variable'', variable_value),
            (''list'', VList list_values)]))"

definition evaluate_pattern_condition :: "node \<Rightarrow> string \<Rightarrow> node \<Rightarrow> pydict \<Rightarrow> pyexc + pydict" where
  "evaluate_pattern_condition variable operator pattern ctx =
     ebind (get_value variable ctx) (\<lambda>v.
     ebind (get_value pattern ctx) (\<lambda>p.
     ebind (if operator = ''CONTAINS'' then Inr (is_substr (py_str p) (py_str v))
            else if operator = ''MATCHES'' then re_search (py_str p) (py_str v)
            else Inr False) (\<lambda>result.
       Inr [(''result'', VBool result), (''variable'', VStr (py_str v)),
            (''pattern'', VStr (py_str p)), (''operator'', VStr operator)])))"

text \<open>The names bound in the module \<^verbatim>\<open>dsl_parser\<close> by its imports and class
  statements. A name that is neither here nor a builtin raises NameError where it is
  evaluated.\<close>

definition dsl_parser_globals :: "string list" where
  "dsl_parser_globals =
     [''re'', ''json'', ''datetime'', ''timedelta'', ''Dict'', ''List'', ''Any'', ''Optional'',
      ''Union'', ''Callable'', ''DSLParserException'', ''DSLParser'', ''DSLEvaluator'']"

definition lookup_global :: "string \<Rightarrow> pyexc + unit" where
  "lookup_global name =
     (if name \<in> set dsl_parser_globals then Inr ()
      else Inl (NameError (''name '' @ [CHR 0x27] @ name @ [CHR 0x27] @ '' is not defined'')))"

text \<open>\<^verbatim>\<open>datetime.fromisoformat(s.replace('Z', '+00:00'))\<close> under
  \<^verbatim>\<open>except ValueError: pass\<close>, applied to a value that is a string.\<close>

definition to_datetime :: "pyval \<Rightarrow> pyexc + pyval" where
  "to_datetime v =
     (case v of
        VStr s \<Rightarrow>
          (case fromisoformat (replace_char CHR ''Z'' ''+00:00'' s) of
             Inr d \<Rightarrow> Inr (VDatetime d)
           | Inl (ValueError m) \<Rightarrow> Inr v
           | Inl e \<Rightarrow> Inl e)
      | _ \<Rightarrow> Inr v)"

text \<open>\<^verbatim>\<open>isinstance(v, (int, float))\<close>, which holds of a bool as well, and then the
  number.\<close>

definition as_number :: "pyval \<Rightarrow> int option" where
  "as_number v = num_of v"

text \<open>\<^verbatim>\<open>timedelta(seconds=n)\<close> in microseconds. The seconds are normalized into days and
  a rest from 0 to 86399; the days must fit a C \<^verbatim>\<open>int\<close> and then be at most 999999999 in
  magnitude.\<close>

definition timedelta_seconds :: "int \<Rightarrow> pyexc + int" where
  "timedelta_seconds n =
     (let days = n div 86400 in
      if days < - 2147483648 \<or> 2147483647 < days
      then Inl (OverflowError ''Python int too large to convert to C int'')
      else if \<bar>days\<bar> > 999999999
      then Inl (OverflowError (''days='' @ str_int days @ ''; must have magnitude <= 999999999''))
      else Inr (n * 1000000))"

text \<open>\<^verbatim>\<open>now - v\<close> in microseconds, for an aware \<^verbatim>\<open>now\<close>.\<close>

definition datetime_minus :: "datetime \<Rightarrow> pyval \<Rightarrow> pyexc + int" where
  "datetime_minus now v =
     (case v of
        VDatetime d \<Rightarrow>
          (if (utcoffset d = None) = (utcoffset now = None) then Inr (micros now - micros d)
           else Inl (TypeError ''can't subtract offset-naive and offset-aware datetimes''))
      | _ \<Rightarrow> Inl (TypeError (''unsupported operand type(s) for -: '' @ [CHR 0x27]
                 @ ''datetime.datetime'' @ [CHR 0x27] @ '' and '' @ [CHR 0x27] @ type_name v
                 @ [CHR 0x27])))"

text \<open>\<^verbatim>\<open>v > now + duration\<close>: the sum must be a date of the years 1 to 9999.\<close>

definition after_instant :: "pyval \<Rightarrow> datetime \<Rightarrow> int \<Rightarrow> pyexc + bool" where
  "after_instant v now duration =
     (let t = micros now + (case utcoffset now of None \<Rightarrow> 0 | Some s \<Rightarrow> s * 1000000) + duration
      in if t < 86400000000 \<or> t \<ge> 3652060 * 86400000000
         then Inl (OverflowError ''date value out of range'')
         else
           (case v of
              VDatetime d \<Rightarrow>
                (if (utcoffset d = None) = (utcoffset now = None)
                 then Inr (micros d > micros now + duration)
                 else Inl (TypeError ''can't compare offset-naive and offset-aware datetimes''))
            | _ \<Rightarrow> Inl (not_supported Gt v (VDatetime now))))"

text \<open>\<^verbatim>\<open>_evaluate_temporal_condition\<close>; \<open>now\<close> is what \<^verbatim>\<open>datetime.now\<close> returns for
  UTC when it is called. The branches \<^verbatim>\<open>WITHIN\<close> and \<^verbatim>\<open>EXPIRES\<close> evaluate the name
  \<^verbatim>\<open>timezone\<close> before they call it.\<close>

definition evaluate_temporal_condition ::
  "datetime \<Rightarrow> node \<Rightarrow> string \<Rightarrow> node \<Rightarrow> pydict \<Rightarrow> pyexc + pydict" where
  "evaluate_temporal_condition now variable operator val ctx =
     ebind (get_value variable ctx) (\<lambda>v0.
     ebind (get_value val ctx) (\<lambda>w0.
     ebind (to_datetime v0) (\<lambda>variable_value.
     ebind (to_datetime w0) (\<lambda>w.
     ebind
       (if operator = ''BEFORE'' then py_cmp Lt variable_value w
        else if operator = ''AFTER'' then py_cmp Gt variable_value w
        else if operator = ''WITHIN'' then
          (case as_number w of
             Some n \<Rightarrow>
               ebind (timedelta_seconds n) (\<lambda>duration.
               ebind (lookup_global ''timezone'') (\<lambda>_.
               ebind (datetime_minus now variable_value) (\<lambda>age. Inr (age \<le> duration))))
           | None \<Rightarrow> Inr False)
        else if operator = ''EXPIRES'' then
          (case as_number w of
             Some n \<Rightarrow>
               ebind (timedelta_seconds n) (\<lambda>duration.
               ebind (lookup_global ''timezone'') (\<lambda>_.
               after_instant variable_value now duration))
           | None \<Rightarrow> Inr False)
        else Inr False)
       (\<lambda>result.
         Inr [(''result'', VBool result), (''variable'', variable_value),
              (''operator'', VStr operator), (''value'', w)])))))"

definition evaluate_variable_condition :: "node \<Rightarrow> pydict \<Rightarrow> pyexc + pydict" where
  "evaluate_variable_condition variable ctx =
     ebind (get_value variable ctx) (\<lambda>variable_value.
       Inr [(''result'', VBool (truthy variable_value)), (''variable'', variable_value)])"

text \<open>\<^verbatim>\<open>_evaluate_condition\<close> with \<^verbatim>\<open>_evaluate_compound_condition\<close> and
  \<^verbatim>\<open>_evaluate_not_condition\<close>, which call it back. A compound condition evaluates its
  left and its right operand, in this order, before it looks at the operator.\<close>

fun evaluate_condition :: "datetime \<Rightarrow> condition \<Rightarrow> pydict \<Rightarrow> pyexc + pydict" where
  "evaluate_condition now (Simple_condition l op r) ctx = evaluate_simple_condition l op r ctx"
| "evaluate_condition now (List_condition v vs) ctx = evaluate_list_condition v vs ctx"
| "evaluate_condition now (Pattern_condition v op p) ctx = evaluate_pattern_condition v op p ctx"
| "evaluate_condition now (Temporal_condition v op w) ctx =
     evaluate_temporal_condition now v op w ctx"
| "evaluate_condition now (Compound_condition l op r) ctx =
     ebind (evaluate_condition now l ctx) (\<lambda>left_result.
     ebind (evaluate_condition now r ctx) (\<lambda>right_result.
       Inr [(''result'',
               VBool (if op = ''AND'' then result_of left_result \<and> result_of right_result
                      else if op = ''OR'' then result_of left_result \<or> result_of right_result
                      else False)),
            (''left'', VDict left_result), (''right'', VDict right_result),
            (''operator'', VStr op)]))"
| "evaluate_condition now (Not_condition c) ctx =
     ebind (evaluate_condition now c ctx) (\<lambda>inner_result.
       Inr [(''result'', VBool (\<not> result_of inner_result)), (''inner'', VDict inner_result)])"
| "evaluate_condition now (Variable_condition v) ctx = evaluate_variable_condition v ctx"
| "evaluate_condition now (Unknown_condition t) ctx =
     Inl (ValueError (''Unknown condition type: '' @ t))"

subsection \<open>Consequences, actions and rules\<close>

definition evaluate_constraint :: "node \<Rightarrow> string \<Rightarrow> node \<Rightarrow> pydict \<Rightarrow> pyexc + pydict" where
  "evaluate_constraint variable operator val ctx =
     ebind (get_value variable ctx) (\<lambda>variable_value.
     ebind (get_value val ctx) (\<lambda>w.
     ebind (apply_operator variable_value operator w) (\<lambda>result.
       Inr [(''result'', VBool result), (''variable'', variable_value),
            (''operator'', VStr operator), (''value'', w)])))"

definition evaluate_in_constraint :: "bool \<Rightarrow> node \<Rightarrow> node list \<Rightarrow> pydict \<Rightarrow> pyexc + pydict" where
  "evaluate_in_constraint negated variable vals ctx =
     ebind (get_value variable ctx) (\<lambda>variable_value.
     ebind (get_values vals ctx) (\<lambda>list_values.
       Inr [(''result'', VBool (py_in variable_value list_values \<noteq> negated)),
            (''variable'', variable_value), (''list'', VList list_values)]))"

text \<open>\<^verbatim>\<open>lower <= variable_value <= upper\<close>: the second comparison is made only when the
  first holds.\<close>

definition evaluate_between_constraint :: "node \<Rightarrow> node \<Rightarrow> node \<Rightarrow> pydict \<Rightarrow> pyexc + pydict" where
  "evaluate_between_constraint variable lower upper ctx =
     ebind (get_value variable ctx) (\<lambda>variable_value.
     ebind (get_value lower ctx) (\<lambda>lo.
     ebind (get_value upper ctx) (\<lambda>hi.
     ebind (ebind (py_cmp Le lo variable_value)
              (\<lambda>b. if b then py_cmp Le variable_value hi else Inr False)) (\<lambda>result.
       Inr [(''result'', VBool result), (''variable'', variable_value), (''lower'', lo),
            (''upper'', hi)]))))"

definition evaluate_requirement :: "string \<Rightarrow> node \<Rightarrow> pydict \<Rightarrow> pyexc + pydict" where
  "evaluate_requirement keyword variable ctx =
     ebind (get_value variable ctx) (\<lambda>variable_value.
       Inr [(''result'', VBool (truthy variable_value)), (''variable'', variable_value),
            (''requirement'', VStr keyword)])"

definition boolean_literal_result :: "bool \<Rightarrow> pydict" where
  "boolean_literal_result b = [(''result'', VBool b), (''reason'', VStr ''Boolean literal'')]"

definition variable_expression_result :: "node \<Rightarrow> pydict \<Rightarrow> pyexc + pydict" where
  "variable_expression_result variable ctx =
     ebind (get_value variable ctx) (\<lambda>v.
       Inr [(''result'', VBool (truthy v)),
            (''reason'', VStr (''Variable expression: '' @ py_str v))])"

fun evaluate_boolean_expression :: "bexpr \<Rightarrow> pydict \<Rightarrow> pyexc + pydict" where
  "evaluate_boolean_expression (Not_expression e) ctx =
     ebind (evaluate_boolean_expression e ctx) (\<lambda>inner_result.
       Inr [(''result'', VBool (\<not> result_of inner_result)), (''inner'', VDict inner_result)])"
| "evaluate_boolean_expression (Boolean_expression l op r) ctx =
     ebind (evaluate_boolean_expression l ctx) (\<lambda>left_result.
     ebind (evaluate_boolean_expression r ctx) (\<lambda>right_result.
       Inr [(''result'',
               VBool (if op = ''AND'' then result_of left_result \<and> result_of right_result
                      else if op = ''OR'' then result_of left_result \<or> result_of right_result
                      else False)),
            (''left'', VDict left_result), (''right'', VDict right_result),
            (''operator'', VStr op)]))"
| "evaluate_boolean_expression (Boolean_literal b) ctx = Inr (boolean_literal_result b)"
| "evaluate_boolean_expression (Variable_expression v) ctx = variable_expression_result v ctx"

fun evaluate_consequence :: "consequence \<Rightarrow> pydict \<Rightarrow> pyexc + pydict" where
  "evaluate_consequence (Constraint v op w) ctx = evaluate_constraint v op w ctx"
| "evaluate_consequence (In_constraint v vs) ctx = evaluate_in_constraint False v vs ctx"
| "evaluate_consequence (Not_in_constraint v vs) ctx = evaluate_in_constraint True v vs ctx"
| "evaluate_consequence (Between_constraint v lo hi) ctx = evaluate_between_constraint v lo hi ctx"
| "evaluate_consequence (Requirement k v) ctx = evaluate_requirement k v ctx"
| "evaluate_consequence (Expression (Boolean_expression l op r)) ctx =
     evaluate_boolean_expression (Boolean_expression l op r) ctx"
| "evaluate_consequence (Expression (Boolean_literal b)) ctx = Inr (boolean_literal_result b)"
| "evaluate_consequence (Expression (Variable_expression v)) ctx = variable_expression_result v ctx"
| "evaluate_consequence (Expression (Not_expression e)) ctx =
     Inl (ValueError ''Unknown consequence type: not_expression'')"
| "evaluate_consequence (Unknown_consequence t) ctx =
     Inl (ValueError (''Unknown consequence type: '' @ t))"

fun evaluate_action :: "action \<Rightarrow> pydict \<Rightarrow> pyexc + pydict" where
  "evaluate_action (Action action_type variable) ctx =
     ebind (get_value variable ctx) (\<lambda>variable_value.
       Inr [(''action_type'', VStr action_type), (''variable'', variable_value),
            (''executed'', VBool True)])"

text \<open>The body of \<^verbatim>\<open>evaluate\<close> inside its \<^verbatim>\<open>try\<close>.\<close>

fun evaluate_body :: "datetime \<Rightarrow> ast \<Rightarrow> pydict \<Rightarrow> pyexc + pydict" where
  "evaluate_body now (Rule cond cons act) ctx =
     ebind (evaluate_condition now cond ctx) (\<lambda>condition_result.
       if \<not> result_of condition_result then
         Inr [(''result'', VBool True), (''reason'', VStr ''Condition not met''),
              (''details'', VDict condition_result)]
       else
         (case cons of
            Some c \<Rightarrow>
              ebind (evaluate_consequence c ctx) (\<lambda>consequence_result.
              ebind (py_getitem (VDict consequence_result) ''result'') (\<lambda>res.
                Inr [(''result'', res),
                     (''reason'', (case dict_get consequence_result ''reason'' of
                                     Some r \<Rightarrow> r | None \<Rightarrow> VStr ''Consequence evaluated'')),
                     (''details'', VDict [(''condition'', VDict condition_result),
                                           (''consequence'', VDict consequence_result)])]))
          | None \<Rightarrow>
              (case act of
                 Some a \<Rightarrow>
                   ebind (evaluate_action a ctx) (\<lambda>action_result.
                   ebind (py_getitem (VDict action_result) ''action_type'') (\<lambda>t.
                     Inr [(''result'', VBool True),
                          (''reason'', VStr (''Action executed: '' @ py_str t)),
                          (''details'', VDict [(''condition'', VDict condition_result),
                                                (''action'', VDict action_result)])]))
               | None \<Rightarrow>
                   Inr [(''result'', VBool False), (''reason'', VStr ''Invalid AST structure'')])))"
| "evaluate_body now (Other_ast t) ctx =
     Inr [(''result'', VBool False), (''reason'', VStr ''Invalid AST structure'')]"

text \<open>\<^verbatim>\<open>DSLEvaluator.evaluate\<close>: every exception of the body becomes a result record.
  The sum is kept only for a library call outside the embedding.\<close>

definition evaluate :: "datetime \<Rightarrow> ast \<Rightarrow> pydict \<Rightarrow> pyexc + pydict" where
  "evaluate now tree ctx =
     (case evaluate_body now tree ctx of
        Inr r \<Rightarrow> Inr r
      | Inl (Unmodelled m) \<Rightarrow> Inl (Unmodelled m)
      | Inl e \<Rightarrow>
          Inr [(''result'', VBool False),
               (''reason'', VStr (''Evaluation error: '' @ exc_str e)),
               (''error'', VStr (exc_str e))])"

subsection \<open>A variable that does not resolve\<close>

text \<open>A dotted path misses when, walking its parts in order, the current value is not a
  mapping or lacks the part.\<close>

fun path_missing :: "string list \<Rightarrow> pyval \<Rightarrow> bool" where
  "path_missing [] v = False"
| "path_missing (part # parts) v =
     (case v of
        VDict d \<Rightarrow> (case dict_get d part of Some w \<Rightarrow> path_missing parts w | None \<Rightarrow> True)
      | _ \<Rightarrow> True)"

definition unresolved :: "string \<Rightarrow> pydict \<Rightarrow> bool" where
  "unresolved name ctx = path_missing (split_on CHR ''.'' name) (VDict ctx)"

section \<open>dsl\_parser.py: the tokenizer\<close>

text \<open>The character classes of \<^verbatim>\<open>str\<close> on the code points below 256.\<close>

definition isspace :: "char \<Rightarrow> bool" where
  "isspace c = (let n = (of_char c :: nat) in (9 \<le> n \<and> n \<le> 13) \<or> (28 \<le> n \<and> n \<le> 32) \<or> n = 133 \<or> n = 160)"

definition isdigit :: "char \<Rightarrow> bool" where
  "isdigit c = (let n = (of_char c :: nat) in (48 \<le> n \<and> n \<le> 57) \<or> n = 178 \<or> n = 179 \<or> n = 185)"

definition isalpha :: "char \<Rightarrow> bool" where
  "isalpha c =
     (let n = (of_char c :: nat) in
      (65 \<le> n \<and> n \<le> 90) \<or> (97 \<le> n \<and> n \<le> 122) \<or> n = 170 \<or> n = 181 \<or> n = 186
      \<or> (192 \<le> n \<and> n \<le> 214) \<or> (216 \<le> n \<and> n \<le> 246) \<or> 248 \<le> n)"

definition isalnum :: "char \<Rightarrow> bool" where
  "isalnum c = (isalpha c \<or> isdigit c \<or> (188 \<le> (of_char c :: nat) \<and> (of_char c :: nat) \<le> 190))"

text \<open>\<^verbatim>\<open>s.upper()\<close>. The capitals of the two letters 181 and 255 lie above 255; they are
  left as they are, which no comparison with the words below can tell apart.\<close>

definition upper_char :: "char \<Rightarrow> string" where
  "upper_char c =
     (let n = (of_char c :: nat) in
      if (97 \<le> n \<and> n \<le> 122) \<or> (224 \<le> n \<and> n \<le> 246) \<or> (248 \<le> n \<and> n \<le> 254)
        then [char_of (n - 32)]
      else if n = 223 then ''SS''
      else [c])"

definition upper :: "string \<Rightarrow> string" where
  "upper s = concat (map upper_char s)"

definition KEYWORDS :: "string list" where
  "KEYWORDS =
     [''WHEN'', ''IF'', ''THEN'', ''MUST'', ''SHOULD'', ''DO'', ''AND'', ''OR'', ''NOT'',
      ''IN'', ''CONTAINS'', ''MATCHES'', ''BEFORE'', ''AFTER'', ''WITHIN'', ''EXPIRES'',
      ''BETWEEN'', ''REQUIRE'', ''ENSURE'', ''VALIDATE'', ''FLAG'', ''ALERT'', ''BLOCK'',
      ''ALLOW'', ''LOG'', ''NOTIFY'', ''TRUE'', ''FALSE'']"

definition OPERATORS :: "string list" where
  "OPERATORS = [''='', ''!='', ''>'', ''>='', ''<'', ''<='', ''LIKE'']"

definition TIME_UNITS :: "string list" where
  "TIME_UNITS =
     [''SECOND'', ''SECONDS'', ''MINUTE'', ''MINUTES'', ''HOUR'', ''HOURS'', ''DAY'', ''DAYS'',
      ''WEEK'', ''WEEKS'', ''MONTH'', ''MONTHS'', ''YEAR'', ''YEARS'']"

record token =
  kind :: string
  lexeme :: string
  position :: nat

text \<open>\<^verbatim>\<open>text[a:b]\<close>.\<close>

definition slice :: "string \<Rightarrow> nat \<Rightarrow> nat \<Rightarrow> string" where
  "slice s a b = take (b - a) (drop a s)"

text \<open>The position after the characters from \<open>pos\<close> on that satisfy \<open>p\<close>.\<close>

definition skip_while :: "(char \<Rightarrow> bool) \<Rightarrow> string \<Rightarrow> nat \<Rightarrow> nat" where
  "skip_while p s pos = pos + length (takeWhile p (drop pos s))"

definition parse_number :: "string \<Rightarrow> nat \<Rightarrow> token" where
  "parse_number s start =
     (let p1 = skip_while isdigit s start;
          p2 = (if p1 < length s \<and> s ! p1 = CHR ''.'' then skip_while isdigit s (p1 + 1) else p1);
          p3 = (if p2 < length s \<and> (s ! p2 = CHR ''e'' \<or> s ! p2 = CHR ''E'') then
                  skip_while isdigit s
                    (if p2 + 1 < length s \<and> (s ! (p2 + 1) = CHR ''+'' \<or> s ! (p2 + 1) = CHR ''-'')
                     then p2 + 2 else p2 + 1)
                else p2)
      in \<lparr>kind = ''number'', lexeme = slice s start p3, position = start\<rparr>)"

text \<open>The loop of \<^verbatim>\<open>_parse_string\<close>: the position of the closing quote, or past the end
  of the text.\<close>

function scan_string :: "string \<Rightarrow> char \<Rightarrow> nat \<Rightarrow> nat" where
  "scan_string s q pos =
     (if pos < length s \<and> s ! pos \<noteq> q
      then scan_string s q (if s ! pos = CHR 0x5C then pos + 2 else pos + 1)
      else pos)"
  by pat_completeness auto
termination
  by (relation "measure (\<lambda>(s, q, pos). length s - pos)") auto

declare scan_string.simps [simp del]

definition parse_string :: "string \<Rightarrow> nat \<Rightarrow> pyexc + token" where
  "parse_string s start =
     (let pos = scan_string s (s ! start) (start + 1) in
      if pos \<ge> length s then Inl (DSLParserException ''Unterminated string'' (Some (1, start + 1)))
      else Inr \<lparr>kind = ''string'', lexeme = slice s start (pos + 1), position = start\<rparr>)"

definition parse_identifier :: "string \<Rightarrow> nat \<Rightarrow> token" where
  "parse_identifier s start =
     (let v = slice s start (skip_while (\<lambda>c. isalnum c \<or> c = CHR ''_'') s start) in
      if upper v \<in> set KEYWORDS then \<lparr>kind = ''keyword'', lexeme = upper v, position = start\<rparr>
      else if upper v \<in> set TIME_UNITS
        then \<lparr>kind = ''time_unit'', lexeme = upper v, position = start\<rparr>
      else \<lparr>kind = ''identifier'', lexeme = v, position = start\<rparr>)"

definition parse_operator :: "string \<Rightarrow> nat \<Rightarrow> pyexc + token" where
  "parse_operator s pos =
     (if pos + 1 < length s \<and> slice s pos (pos + 2) \<in> set OPERATORS
      then Inr \<lparr>kind = ''operator'', lexeme = slice s pos (pos + 2), position = pos\<rparr>
      else if [s ! pos] \<in> set OPERATORS
      then Inr \<lparr>kind = ''operator'', lexeme = [s ! pos], position = pos\<rparr>
      else Inl (DSLParserException (''Unknown operator: '' @ [s ! pos]) (Some (1, pos + 1))))"

text \<open>One turn of the loop of \<^verbatim>\<open>_tokenize\<close> at a position inside the text: no token for
  white space, else the token that starts here.\<close>

definition next_token :: "string \<Rightarrow> nat \<Rightarrow> pyexc + token option" where
  "next_token s pos =
     (let c = s ! pos in
      if isspace c then Inr None
      else if isdigit c then Inr (Some (parse_number s pos))
      else if c = CHR 0x22 \<or> c = CHR 0x27 then map_sum id Some (parse_string s pos)
      else if isalpha c \<or> c = CHR ''_'' then Inr (Some (parse_identifier s pos))
      else if c \<in> set ''=!><'' then map_sum id Some (parse_operator s pos)
      else if c \<in> set ''()[],.@''
        then Inr (Some \<lparr>kind = ''symbol'', lexeme = [c], position = pos\<rparr>)
      else Inl (DSLParserException (''Unknown character: '' @ [c]) (Some (1, pos + 1))))"

text \<open>How far a turn moves: one character over white space and a symbol, the length of
  the lexeme otherwise.\<close>

definition advance :: "token option \<Rightarrow> nat" where
  "advance t = (case t of None \<Rightarrow> 1 | Some k \<Rightarrow> if kind k = ''symbol'' then 1 else length (lexeme k))"

text \<open>Every turn of the tokenizer's loop makes progress.\<close>

lemma skip_while_more: "pos < length s \<Longrightarrow> p (s ! pos) \<Longrightarrow> pos < skip_while p s pos"
  by (cases "drop pos s") (auto simp: skip_while_def hd_drop_conv_nth dest: arg_cong [where f = hd])

lemma skip_while_ge: "pos \<le> skip_while p s pos"
  by (simp add: skip_while_def)

lemma slice_nonempty: "a < length s \<Longrightarrow> a < b \<Longrightarrow> slice s a b \<noteq> []"
  by (simp add: slice_def)

lemma scan_string_ge: "pos \<le> scan_string s q pos"
proof (induction s q pos rule: scan_string.induct)
  case (1 s q pos)
  show ?case
  proof (cases "pos < length s \<and> s ! pos \<noteq> q")
    case True
    with 1 have "(if s ! pos = CHR 0x5C then pos + 2 else pos + 1)
        \<le> scan_string s q (if s ! pos = CHR 0x5C then pos + 2 else pos + 1)"
      by blast
    with True show ?thesis
      by (subst scan_string.simps) (auto split: if_splits)
  next
    case False
    then show ?thesis by (subst scan_string.simps) auto
  qed
qed

lemma upper_nonempty: "v \<noteq> [] \<Longrightarrow> upper v \<noteq> []"
  by (cases v) (auto simp: upper_def upper_char_def Let_def)

lemma parse_number_nonempty:
  assumes "pos < length s" "isdigit (s ! pos)"
  shows "lexeme (parse_number s pos) \<noteq> []"
proof -
  define p1 where "p1 = skip_while isdigit s pos"
  define p2 where "p2 = (if p1 < length s \<and> s ! p1 = CHR ''.'' then skip_while isdigit s (p1 + 1) else p1)"
  define p3 where "p3 = (if p2 < length s \<and> (s ! p2 = CHR ''e'' \<or> s ! p2 = CHR ''E'') then
                  skip_while isdigit s
                    (if p2 + 1 < length s \<and> (s ! (p2 + 1) = CHR ''+'' \<or> s ! (p2 + 1) = CHR ''-'')
                     then p2 + 2 else p2 + 1)
                else p2)"
  have a: "pos < p1" unfolding p1_def using assms by (rule skip_while_more)
  have b: "p1 \<le> p2" unfolding p2_def using skip_while_ge [of "p1 + 1" isdigit s] by auto
  have c: "p2 \<le> p3" unfolding p3_def
    using skip_while_ge [of "p2 + 1" isdigit s] skip_while_ge [of "p2 + 2" isdigit s] by auto
  have "lexeme (parse_number s pos) = slice s pos p3"
    unfolding parse_number_def Let_def p3_def p2_def p1_def by (simp only: token.select_convs)
  with a b c assms(1) show ?thesis by (simp add: slice_nonempty)
qed

lemma parse_string_nonempty: "parse_string s pos = Inr t \<Longrightarrow> pos < length s \<Longrightarrow> lexeme t \<noteq> []"
  using scan_string_ge [of "pos + 1" s "s ! pos"]
  by (auto simp: parse_string_def Let_def slice_nonempty split: if_splits)

lemma parse_identifier_nonempty:
  assumes "pos < length s" "isalpha (s ! pos) \<or> s ! pos = CHR ''_''"
  shows "lexeme (parse_identifier s pos) \<noteq> []"
proof -
  have "pos < skip_while (\<lambda>c. isalnum c \<or> c = CHR ''_'') s pos"
    using assms by (intro skip_while_more) (auto simp: isalnum_def)
  with assms(1) have "slice s pos (skip_while (\<lambda>c. isalnum c \<or> c = CHR ''_'') s pos) \<noteq> []"
    by (rule slice_nonempty)
  then show ?thesis
    by (auto simp: parse_identifier_def Let_def upper_nonempty)
qed

lemma parse_operator_nonempty: "parse_operator s pos = Inr t \<Longrightarrow> pos < length s \<Longrightarrow> lexeme t \<noteq> []"
  by (auto simp: parse_operator_def slice_nonempty split: if_splits)

lemma advance_positive:
  assumes "pos < length s" "next_token s pos = Inr t"
  shows "0 < advance t"
proof (cases t)
  case None
  then show ?thesis by (simp add: advance_def)
next
  case (Some k)
  with assms have "lexeme k \<noteq> [] \<or> kind k = ''symbol''"
    using parse_number_nonempty [of pos s] parse_identifier_nonempty [of pos s]
      parse_string_nonempty [of s pos k] parse_operator_nonempty [of s pos k]
    by (auto simp: next_token_def Let_def map_sum_def split: if_splits sum.splits)
  with Some show ?thesis by (auto simp: advance_def)
qed

text \<open>The loop of \<^verbatim>\<open>_tokenize\<close> from position \<open>pos\<close> on. Every turn moves forward, which
  is what the lemmas above are for.\<close>

function tokenize_from :: "string \<Rightarrow> nat \<Rightarrow> pyexc + token list" where
  "tokenize_from s pos =
     (if pos < length s then
        (case next_token s pos of
           Inl e \<Rightarrow> Inl e
         | Inr t \<Rightarrow>
             (case tokenize_from s (pos + advance t) of
                Inl e \<Rightarrow> Inl e
              | Inr ts \<Rightarrow> Inr (case t of None \<Rightarrow> ts | Some k \<Rightarrow> k # ts)))
      else Inr [])"
  by pat_completeness auto
termination
proof (relation "measure (\<lambda>(s, pos). length s - pos)")
  show "wf (measure (\<lambda>(s, pos). length s - pos))" by simp
next
  fix s pos t
  assume "pos < length s" "next_token s pos = Inr t"
  then have "0 < advance t" by (rule advance_positive)
  with \<open>pos < length s\<close> show "((s, pos + advance t), (s, pos)) \<in> measure (\<lambda>(s, pos). length s - pos)"
    by simp
qed

declare tokenize_from.simps [simp del]

definition tokenize :: "string \<Rightarrow> pyexc + token list" where
  "tokenize s = tokenize_from s 0"


section \<open>Canonical JSON\<close>

text \<open>\<^verbatim>\<open>json.dumps\<close> with \<^verbatim>\<open>sort_keys=True\<close> and the default separators and
  \<^verbatim>\<open>ensure_ascii\<close>. The flag says whether \<^verbatim>\<open>default=str\<close> is given; without it a
  datetime is not serializable.\<close>

definition json_char :: "char \<Rightarrow> string" where
  "json_char c =
     (let n = (of_char c :: nat) in
      if n = 34 then [CHR 0x5C, CHR 0x22]
      else if n = 92 then [CHR 0x5C, CHR 0x5C]
      else if n = 10 then [CHR 0x5C, CHR ''n'']
      else if n = 13 then [CHR 0x5C, CHR ''r'']
      else if n = 9 then [CHR 0x5C, CHR ''t'']
      else if n = 8 then [CHR 0x5C, CHR ''b'']
      else if n = 12 then [CHR 0x5C, CHR ''f'']
      else if n < 32 \<or> n > 126
        then [CHR 0x5C, CHR ''u'', CHR ''0'', CHR ''0'', hexdigit (n div 16), hexdigit n]
      else [c])"

definition json_str :: "string \<Rightarrow> string" where
  "json_str s = [CHR 0x22] @ concat (map json_char s) @ [CHR 0x22]"

fun json_text :: "bool \<Rightarrow> pyval \<Rightarrow> pyexc + string"
  and json_list :: "bool \<Rightarrow> pyval list \<Rightarrow> pyexc + string list"
  and json_items :: "bool \<Rightarrow> pydict \<Rightarrow> pyexc + (string \<times> string) list" where
  "json_text dflt VNone = Inr ''null''"
| "json_text dflt (VBool b) = Inr (if b then ''true'' else ''false'')"
| "json_text dflt (VInt i) = Inr (str_int i)"
| "json_text dflt (VFloat w) = Inr (str_int (sint w) @ ''.0'')"
| "json_text dflt (VStr s) = Inr (json_str s)"
| "json_text dflt (VList xs) =
     ebind (json_list dflt xs) (\<lambda>ts. Inr (''['' @ join '', '' ts @ '']''))"
| "json_text dflt (VDict d) =
     ebind (json_items dflt d)
       (\<lambda>kts. Inr (''{'' @ join '', '' (map (\<lambda>kt. json_str (fst kt) @ '': '' @ snd kt)
                                        (sort_key fst kts)) @ ''}''))"
| "json_text dflt (VDatetime t) =
     (if dflt then Inr (json_str (isoformat_sep CHR '' '' t))
      else Inl (TypeError ''Object of type datetime is not JSON serializable''))"
| "json_list dflt [] = Inr []"
| "json_list dflt (x # xs) =
     ebind (json_text dflt x) (\<lambda>t. ebind (json_list dflt xs) (\<lambda>ts. Inr (t # ts)))"
| "json_items dflt [] = Inr []"
| "json_items dflt (kv # d) =
     ebind (json_text dflt (snd kv))
       (\<lambda>t. ebind (json_items dflt d) (\<lambda>kts. Inr ((fst kv, t) # kts)))"

definition json_dumps :: "bool \<Rightarrow> pydict \<Rightarrow> pyexc + string" where
  "json_dumps dflt d = json_text dflt (VDict d)"

section \<open>evidence\_manager.py\<close>

record evidence =
  ev_id :: string
  ev_type :: string
  ev_content :: pydict
  ev_timestamp :: string
  ev_source :: string
  ev_hash :: string

text \<open>The primary store and the three indexes, each from a key to the list of ids filed
  under it.\<close>

record evidence_manager =
  evidence_store :: "string \<rightharpoonup> evidence"
  by_type :: "string \<rightharpoonup> string list"
  by_source :: "string \<rightharpoonup> string list"
  by_timestamp :: "string \<rightharpoonup> string list"

definition new_evidence_manager :: evidence_manager where
  "new_evidence_manager =
     \<lparr>evidence_store = Map.empty, by_type = Map.empty, by_source = Map.empty,
      by_timestamp = Map.empty\<rparr>"

definition VALID_EVIDENCE_TYPES :: "string list" where
  "VALID_EVIDENCE_TYPES = [''log'', ''document'', ''metric'', ''user_input'', ''system_event'']"

text \<open>\<^verbatim>\<open>if key not in index: index[key] = []\<close> and \<^verbatim>\<open>index[key].append(i)\<close>.\<close>

definition index_add :: "(string \<rightharpoonup> string list) \<Rightarrow> string \<Rightarrow> string \<Rightarrow> (string \<rightharpoonup> string list)" where
  "index_add idx key i = idx(key \<mapsto> (case idx key of None \<Rightarrow> [] | Some l \<Rightarrow> l) @ [i])"

text \<open>\<^verbatim>\<open>if key in index: if i in index[key]: index[key].remove(i)\<close>.\<close>

definition index_remove :: "(string \<rightharpoonup> string list) \<Rightarrow> string \<Rightarrow> string \<Rightarrow> (string \<rightharpoonup> string list)" where
  "index_remove idx key i = (case idx key of None \<Rightarrow> idx | Some l \<Rightarrow> idx(key \<mapsto> remove1 i l))"

text \<open>\<^verbatim>\<open>EvidenceManager._calculate_hash\<close>.\<close>

definition ev_calculate_hash :: "pydict \<Rightarrow> pyexc + string" where
  "ev_calculate_hash content =
     ebind (json_dumps True content) (\<lambda>content_str. Inr (sha256_hexdigest (encode content_str)))"

definition ev_update_indexes :: "evidence \<Rightarrow> evidence_manager \<Rightarrow> evidence_manager" where
  "ev_update_indexes e m =
     m\<lparr>by_type := index_add (by_type m) (ev_type e) (ev_id e),
       by_source := index_add (by_source m) (ev_source e) (ev_id e),
       by_timestamp := index_add (by_timestamp m) (take 10 (ev_timestamp e)) (ev_id e)\<rparr>"

definition store_evidence :: "evidence \<Rightarrow> evidence_manager \<Rightarrow> evidence_manager" where
  "store_evidence e m = ev_update_indexes e (m\<lparr>evidence_store := (evidence_store m)(ev_id e \<mapsto> e)\<rparr>)"

text \<open>\<^verbatim>\<open>create_evidence\<close>. \<open>now_local\<close> and \<open>now\<close> are the two readings of the clock,
  \<^verbatim>\<open>datetime.now()\<close> for a generated id and \<^verbatim>\<open>datetime.now(timezone.utc)\<close> for the
  timestamp; an id that is absent or empty is generated.\<close>

definition create_evidence ::
  "datetime \<Rightarrow> datetime \<Rightarrow> string \<Rightarrow> pydict \<Rightarrow> string \<Rightarrow> string option \<Rightarrow> evidence_manager
     \<Rightarrow> pyexc + (evidence \<times> evidence_manager)" where
  "create_evidence now_local now evidence_type content source evidence_id m =
     (if evidence_type \<notin> set VALID_EVIDENCE_TYPES
      then Inl (EvidenceException (''Invalid evidence type: '' @ evidence_type) None)
      else if content = []
      then Inl (EvidenceException ''Evidence content cannot be empty'' None)
      else
        (let i = (if evidence_id = None \<or> evidence_id = Some []
                  then ''evd_'' @ take 16 (md5_hexdigest (encode
                         (evidence_type @ ''_'' @ source @ ''_'' @ isoformat now_local)))
                  else the evidence_id)
         in ebind (ev_calculate_hash content) (\<lambda>h.
              let e = \<lparr>ev_id = i, ev_type = evidence_type, ev_content = content,
                       ev_timestamp = isoformat now, ev_source = source, ev_hash = h\<rparr>
              in Inr (e, store_evidence e m))))"

definition get_evidence :: "string \<Rightarrow> evidence_manager \<Rightarrow> evidence option" where
  "get_evidence i m = evidence_store m i"

text \<open>The record a verification returns; the two hashes are present when the record
  was found and holds a hash.\<close>

record verification =
  valid :: bool
  reason :: string
  stored_hash :: "string option"
  calculated_hash :: "string option"

definition verification_of :: "string \<Rightarrow> string \<Rightarrow> verification" where
  "verification_of stored current =
     \<lparr>valid = (current = stored),
      reason = (if current = stored then ''Hashes match'' else ''Hashes do not match''),
      stored_hash = Some stored, calculated_hash = Some current\<rparr>"

definition verify_evidence_integrity :: "string \<Rightarrow> evidence_manager \<Rightarrow> pyexc + verification" where
  "verify_evidence_integrity i m =
     (case get_evidence i m of
        None \<Rightarrow> Inr \<lparr>valid = False, reason = ''Evidence not found'', stored_hash = None,
                     calculated_hash = None\<rparr>
      | Some e \<Rightarrow>
          ebind (ev_calculate_hash (ev_content e)) (\<lambda>current_hash.
            if ev_hash e = []
            then Inr \<lparr>valid = False, reason = ''No hash stored for evidence'', stored_hash = None,
                       calculated_hash = None\<rparr>
            else Inr (verification_of (ev_hash e) current_hash)))"

definition remove_from_indexes :: "evidence \<Rightarrow> evidence_manager \<Rightarrow> evidence_manager" where
  "remove_from_indexes e m =
     m\<lparr>by_type := index_remove (by_type m) (ev_type e) (ev_id e),
       by_source := index_remove (by_source m) (ev_source e) (ev_id e),
       by_timestamp := index_remove (by_timestamp m) (take 10 (ev_timestamp e)) (ev_id e)\<rparr>"

definition delete_evidence :: "string \<Rightarrow> evidence_manager \<Rightarrow> bool \<times> evidence_manager" where
  "delete_evidence i m =
     (case get_evidence i m of
        None \<Rightarrow> (False, m)
      | Some e \<Rightarrow> (True, remove_from_indexes e (m\<lparr>evidence_store := (evidence_store m)(i := None)\<rparr>)))"

section \<open>audit\_trail.py\<close>

record audit_entry =
  au_id :: string
  au_timestamp :: string
  au_action :: string
  au_user :: string
  au_details :: pydict
  au_bundle_id :: "string option"
  au_hash :: string

record audit_bundle =
  b_id :: string
  b_name :: string
  b_description :: string
  created :: string
  modified :: string
  version :: string
  entry_count :: nat
  bundle_hash :: string
  entries :: "audit_entry list"
  checksum :: string

record audit_trail =
  audit_store :: "string \<rightharpoonup> audit_entry"
  bundles :: "string \<rightharpoonup> audit_bundle"
  by_user :: "string \<rightharpoonup> string list"
  by_action :: "string \<rightharpoonup> string list"
  by_date :: "string \<rightharpoonup> string list"
  by_bundle :: "string \<rightharpoonup> string list"

text \<open>\<open>by_date\<close> is the index \<^verbatim>\<open>indexes['by_timestamp']\<close> of the audit trail, keyed by the
  first ten characters of the timestamp.\<close>

definition new_audit_trail :: audit_trail where
  "new_audit_trail =
     \<lparr>audit_store = Map.empty, bundles = Map.empty, by_user = Map.empty, by_action = Map.empty,
      by_date = Map.empty, by_bundle = Map.empty\<rparr>"

text \<open>\<^verbatim>\<open>AuditTrail._calculate_hash\<close>; the details are serialized without a
  \<^verbatim>\<open>default\<close>.\<close>

definition au_calculate_hash :: "string \<Rightarrow> string \<Rightarrow> pydict \<Rightarrow> datetime \<Rightarrow> pyexc + string" where
  "au_calculate_hash action user details ts =
     ebind (json_dumps False details) (\<lambda>j.
       Inr (sha256_hexdigest (encode (action @ '':'' @ user @ '':'' @ j @ '':'' @ isoformat ts))))"

definition au_update_indexes :: "audit_entry \<Rightarrow> audit_trail \<Rightarrow> audit_trail" where
  "au_update_indexes e t =
     (let t1 = t\<lparr>by_user := index_add (by_user t) (au_user e) (au_id e),
                  by_action := index_add (by_action t) (au_action e) (au_id e),
                  by_date := index_add (by_date t) (take 10 (au_timestamp e)) (au_id e)\<rparr>
      in case au_bundle_id e of
           None \<Rightarrow> t1
         | Some b \<Rightarrow> if b = [] then t1 else t1\<lparr>by_bundle := index_add (by_bundle t1) b (au_id e)\<rparr>)"

definition store_audit_entry :: "audit_entry \<Rightarrow> audit_trail \<Rightarrow> audit_trail" where
  "store_audit_entry e t = au_update_indexes e (t\<lparr>audit_store := (audit_store t)(au_id e \<mapsto> e)\<rparr>)"

definition create_audit_entry ::
  "datetime \<Rightarrow> datetime \<Rightarrow> string \<Rightarrow> string \<Rightarrow> pydict \<Rightarrow> string option \<Rightarrow> string option
     \<Rightarrow> audit_trail \<Rightarrow> pyexc + (audit_entry \<times> audit_trail)" where
  "create_audit_entry now_local now action user details audit_id bundle_id t =
     (if action = [] then Inl (AuditException ''Action cannot be empty'' None)
      else if user = [] then Inl (AuditException ''User cannot be empty'' None)
      else
        (let i = (if audit_id = None \<or> audit_id = Some []
                  then ''aud_'' @ take 16 (md5_hexdigest (encode
                         (action @ ''_'' @ user @ ''_'' @ isoformat now_local)))
                  else the audit_id)
         in ebind (au_calculate_hash action user details now) (\<lambda>h.
              let e = \<lparr>au_id = i, au_timestamp = isoformat now, au_action = action,
                       au_user = user, au_details = details, au_bundle_id = bundle_id,
                       au_hash = h\<rparr>
              in Inr (e, store_audit_entry e t))))"

definition get_audit_entry :: "string \<Rightarrow> audit_trail \<Rightarrow> audit_entry option" where
  "get_audit_entry i t = audit_store t i"

definition verify_audit_entry_integrity :: "string \<Rightarrow> audit_trail \<Rightarrow> pyexc + verification" where
  "verify_audit_entry_integrity i t =
     (case get_audit_entry i t of
        None \<Rightarrow> Inr \<lparr>valid = False, reason = ''Audit entry not found'', stored_hash = None,
                     calculated_hash = None\<rparr>
      | Some e \<Rightarrow>
          ebind (fromisoformat (replace_char CHR ''Z'' ''+00:00'' (au_timestamp e))) (\<lambda>ts.
          ebind (au_calculate_hash (au_action e) (au_user e) (au_details e) ts) (\<lambda>current_hash.
            if au_hash e = []
            then Inr \<lparr>valid = False, reason = ''No hash stored for audit entry'',
                       stored_hash = None, calculated_hash = None\<rparr>
            else Inr (verification_of (au_hash e) current_hash))))"

text \<open>The digest of the hashes of some entries, fed to SHA-256 one after the other.\<close>

definition hash_of_hashes :: "audit_entry list \<Rightarrow> string" where
  "hash_of_hashes es = sha256_hexdigest (concat (map (\<lambda>e. encode (au_hash e)) es))"

text \<open>\<^verbatim>\<open>_calculate_bundle_checksum\<close>: \<^verbatim>\<open>sorted\<close> is stable and compares the timestamps as
  strings.\<close>

definition calculate_bundle_checksum :: "audit_entry list \<Rightarrow> string" where
  "calculate_bundle_checksum es = hash_of_hashes (sort_key au_timestamp es)"

text \<open>The first loop of \<^verbatim>\<open>create_audit_bundle\<close>: every id is looked up and verified, in the
  order of the list.\<close>

fun collect_entries :: "string list \<Rightarrow> audit_trail \<Rightarrow> pyexc + audit_entry list" where
  "collect_entries [] t = Inr []"
| "collect_entries (i # ids) t =
     (case get_audit_entry i t of
        None \<Rightarrow> Inl (AuditException (''Audit entry not found: '' @ i) None)
      | Some e \<Rightarrow>
          ebind (verify_audit_entry_integrity i t) (\<lambda>v.
            if \<not> valid v
            then Inl (AuditException (''Audit entry integrity check failed: '' @ i) None)
            else ebind (collect_entries ids t) (\<lambda>es. Inr (e # es))))"

text \<open>The last loop of \<^verbatim>\<open>create_audit_bundle\<close>, under the comment \<^verbatim>\<open># Update indexes\<close>: the
  stored entry of every id gets the id of the bundle, and nothing else is written.\<close>

fun set_bundle_ids :: "string list \<Rightarrow> string \<Rightarrow> (string \<rightharpoonup> audit_entry) \<Rightarrow> (string \<rightharpoonup> audit_entry)" where
  "set_bundle_ids [] b st = st"
| "set_bundle_ids (i # ids) b st =
     set_bundle_ids ids b
       (case st i of None \<Rightarrow> st | Some e \<Rightarrow> st(i \<mapsto> e\<lparr>au_bundle_id := Some b\<rparr>))"

text \<open>\<^verbatim>\<open>create_audit_bundle\<close>. The entries of the bundle are the stored objects themselves,
  so the bundle that is returned and stored shows them with the id of the bundle set.\<close>

definition create_audit_bundle ::
  "datetime \<Rightarrow> datetime \<Rightarrow> string \<Rightarrow> string \<Rightarrow> string list \<Rightarrow> string option \<Rightarrow> audit_trail
     \<Rightarrow> pyexc + (audit_bundle \<times> audit_trail)" where
  "create_audit_bundle now_local now name description audit_ids bundle_id t =
     (if name = [] then Inl (AuditException ''Bundle name cannot be empty'' None)
      else if audit_ids = [] then Inl (AuditException ''Audit IDs list cannot be empty'' None)
      else
        (let b = (if bundle_id = None \<or> bundle_id = Some []
                  then ''bundle_'' @ take 16 (md5_hexdigest (encode
                         (name @ ''_'' @ isoformat now_local)))
                  else the bundle_id)
         in ebind (collect_entries audit_ids t) (\<lambda>es.
              let bundle = \<lparr>b_id = b, b_name = name, b_description = description,
                            created = isoformat now, modified = isoformat now,
                            version = ''1.0'', entry_count = length es,
                            bundle_hash = hash_of_hashes es,
                            entries = map (\<lambda>e. e\<lparr>au_bundle_id := Some b\<rparr>) es,
                            checksum = calculate_bundle_checksum es\<rparr>
              in Inr (bundle,
                      t\<lparr>bundles := (bundles t)(b \<mapsto> bundle),
                        audit_store := set_bundle_ids audit_ids b (audit_store t)\<rparr>))))"

subsection \<open>The invariant the indexes are meant to keep\<close>

definition filed :: "(string \<rightharpoonup> string list) \<Rightarrow> string \<Rightarrow> string \<Rightarrow> bool" where
  "filed idx key i = (case idx key of None \<Rightarrow> False | Some l \<Rightarrow> i \<in> set l)"

definition evidence_indexed :: "evidence_manager \<Rightarrow> string \<Rightarrow> bool" where
  "evidence_indexed m i =
     (case evidence_store m i of
        None \<Rightarrow> True
      | Some e \<Rightarrow> filed (by_type m) (ev_type e) i \<and> filed (by_source m) (ev_source e) i \<and>
                  filed (by_timestamp m) (take 10 (ev_timestamp e)) i)"

definition audit_indexed :: "audit_trail \<Rightarrow> string \<Rightarrow> bool" where
  "audit_indexed t i =
     (case audit_store t i of
        None \<Rightarrow> True
      | Some e \<Rightarrow> filed (by_user t) (au_user e) i \<and> filed (by_action t) (au_action e) i \<and>
                  filed (by_date t) (take 10 (au_timestamp e)) i \<and>
                  (case au_bundle_id e of None \<Rightarrow> True | Some b \<Rightarrow> filed (by_bundle t) b i))"

section \<open>rule\_engine.py: the execution of a rule\<close>

text \<open>An \<^verbatim>\<open>ExecutionContext\<close>. Its \<open>execution_id\<close> is the text of the UUID drawn when the
  context is made and its \<open>timestamp\<close> the clock at that moment.\<close>

record execution_context =
  data :: pydict
  variables :: pydict
  execution_id :: string
  timestamp :: datetime
  results :: "pydict list"
  errors :: "pydict list"
  metadata :: pydict





text \<open>The executor of a rule type reads the rule and the context and returns the record of
  its outcome or raises. The four executors of the built-in types are parameters of the
  embedding; none of them writes to the context or to the cache. A registered handler is
  taken to be such a function as well.\<close>

type_synonym executor = "pydict \<Rightarrow> execution_context \<Rightarrow> pyexc + pydict"


record rule_engine =
  custom_handlers :: "string \<rightharpoonup> executor"
  cache :: "string \<rightharpoonup> pydict"

definition register_handler :: "string \<Rightarrow> executor \<Rightarrow> rule_engine \<Rightarrow> rule_engine" where
  "register_handler rule_type handler e = e\<lparr>custom_handlers := (custom_handlers e)(rule_type \<mapsto> handler)\<rparr>"






chapter \<open>Concrete inputs\<close>

text \<open>The inputs at which the properties below are instantiated or refuted.\<close>

definition noon :: datetime where
  "noon = \<lparr>year = 2024, month = 6, day = 1, hour = 12, minute = 0, second = 0,
            microsecond = 0, utcoffset = Some 0\<rparr>"

definition recent_ctx :: pydict where
  "recent_ctx = [(''consent'', VDict [(''given_at'', VStr ''2024-06-01T11:30:00+00:00'')])]"

definition within_rule :: ast where
  "within_rule =
     Rule (Temporal_condition (Variable ''consent.given_at'') ''WITHIN'' (Number_value 3600))
       (Some (Expression (Boolean_literal True))) None"

definition expires_rule :: ast where
  "expires_rule =
     Rule (Temporal_condition (Variable ''consent.given_at'') ''EXPIRES'' (Number_value 3600))
       (Some (Expression (Boolean_literal True))) None"

definition timezone_undefined :: string where
  "timezone_undefined = ''name '' @ [CHR 0x27] @ ''timezone'' @ [CHR 0x27] @ '' is not defined''"

definition flag_ctx :: pydict where
  "flag_ctx = [(''flag'', VBool True)]"

definition flag_set :: condition where
  "flag_set = Variable_condition (Variable ''flag'')"

definition missing_before_5 :: condition where
  "missing_before_5 = Temporal_condition (Variable ''missing'') ''BEFORE'' (Number_value 5)"

definition none_vs_int :: string where
  "none_vs_int = [CHR 0x27] @ ''<'' @ [CHR 0x27] @ '' not supported between instances of ''
     @ [CHR 0x27] @ ''NoneType'' @ [CHR 0x27] @ '' and '' @ [CHR 0x27] @ ''int'' @ [CHR 0x27]"

definition user_ctx :: pydict where
  "user_ctx = [(''user'', VDict [(''name'', VStr ''ann'')])]"

definition like_text :: string where
  "like_text = ''name LIKE '' @ [CHR 0x27] @ ''a%'' @ [CHR 0x27]"

definition null_metadata_bundle :: pydict where
  "null_metadata_bundle =
     [(''version'', VStr ''1.0''), (''metadata'', VNone), (''rules'', VList []),
      (''decisions'', VList [])]"

definition null_rule_bundle :: pydict where
  "null_rule_bundle =
     [(''version'', VStr ''1.0''),
      (''metadata'', VDict [(''id'', VStr ''b1''), (''name'', VStr ''n''),
         (''description'', VStr ''d''), (''created'', VStr ''2024-01-01T00:00:00+00:00''),
         (''jurisdiction'', VStr ''EU''), (''domain'', VStr ''finance'')]),
      (''rules'', VList [VNone,
         VDict [(''id'', VStr ''r1''), (''name'', VStr ''n''), (''type'', VStr ''python''),
                (''definition'', VDict [])]]),
      (''decisions'', VList [])]"

definition python_rule_bundle :: pydict where
  "python_rule_bundle =
     [(''version'', VStr ''1.0''),
      (''metadata'', VDict [(''id'', VStr ''b1''), (''name'', VStr ''n''),
         (''description'', VStr ''d''), (''created'', VStr ''2024-01-01T00:00:00+00:00''),
         (''jurisdiction'', VStr ''EU''), (''domain'', VStr ''finance'')]),
      (''rules'', VList [
         VDict [(''id'', VStr ''r0''), (''name'', VStr ''n''), (''type'', VStr ''dsl''),
                (''definition'', VDict [(''dsl'', VStr ''WHEN a THEN TRUE'')])],
         VDict [(''id'', VStr ''r1''), (''name'', VStr ''n''), (''type'', VStr ''python''),
                (''definition'', VDict [])]]),
      (''decisions'', VList [
         VDict [(''id'', VStr ''d0''), (''ruleId'', VStr ''r0''), (''input'', VDict []),
                (''output'', VDict [(''result'', VBool True)]),
                (''timestamp'', VStr ''2024-01-01T00:00:00+00:00'')]])]"

definition none_not_iterable :: string where
  "none_not_iterable = ''argument of type '' @ [CHR 0x27] @ ''NoneType'' @ [CHR 0x27]
     @ '' is not iterable''"

definition unknown_x :: condition where
  "unknown_x = Unknown_condition ''x''"

definition five_past :: datetime where
  "five_past = \<lparr>year = 2024, month = 6, day = 1, hour = 12, minute = 0, second = 5,
                 microsecond = 0, utcoffset = Some 0\<rparr>"

definition started_evidence :: evidence where
  "started_evidence =
     \<lparr>ev_id = ''e1'', ev_type = ''log'', ev_content = [(''msg'', VStr ''started'')],
      ev_timestamp = ''2024-06-01T12:00:00+00:00'', ev_source = ''system'',
      ev_hash = ''48b1f674d8db7da25987289a0d1232338ba81db0bd968fa8273334feea8c026c''\<rparr>"

definition one_evidence :: evidence_manager where
  "one_evidence =
     \<lparr>evidence_store = [''e1'' \<mapsto> started_evidence], by_type = [''log'' \<mapsto> [''e1'']],
      by_source = [''system'' \<mapsto> [''e1'']], by_timestamp = [''2024-06-01'' \<mapsto> [''e1'']]\<rparr>"

definition login_entry :: audit_entry where
  "login_entry =
     \<lparr>au_id = ''a1'', au_timestamp = ''2024-06-01T12:00:00+00:00'', au_action = ''login'',
      au_user = ''alice'', au_details = [], au_bundle_id = None,
      au_hash = ''f3a382c674d08ad75d2280af5d974480e02680cdd5671935ef36d18f233867cf''\<rparr>"

definition logout_entry :: audit_entry where
  "logout_entry =
     \<lparr>au_id = ''a2'', au_timestamp = ''2024-06-01T12:00:05+00:00'', au_action = ''logout'',
      au_user = ''alice'', au_details = [], au_bundle_id = None,
      au_hash = ''40765b410680e7095999d1882825c0ffdca044d48719c27b120a4b29d4c4106d''\<rparr>"

definition one_entry :: audit_trail where
  "one_entry =
     \<lparr>audit_store = [''a1'' \<mapsto> login_entry], bundles = Map.empty,
      by_user = [''alice'' \<mapsto> [''a1'']], by_action = [''login'' \<mapsto> [''a1'']],
      by_date = [''2024-06-01'' \<mapsto> [''a1'']], by_bundle = Map.empty\<rparr>"

definition two_entries :: audit_trail where
  "two_entries =
     \<lparr>audit_store = [''a1'' \<mapsto> login_entry, ''a2'' \<mapsto> logout_entry], bundles = Map.empty,
      by_user = [''alice'' \<mapsto> [''a1'', ''a2'']],
      by_action = [''login'' \<mapsto> [''a1''], ''logout'' \<mapsto> [''a2'']],
      by_date = [''2024-06-01'' \<mapsto> [''a1'', ''a2'']], by_bundle = Map.empty\<rparr>"












chapter \<open>Properties\<close>

section \<open>Evaluating a digest\<close>

text \<open>Unfolding facts for evaluating a digest on a concrete message.\<close>

lemma replicate_numeral: "replicate (numeral k) x = x # replicate (numeral k - 1) x"
  by (simp add: numeral_eq_Suc)

lemmas digest_defs =
  encode_def md_pad_def be_bytes8_def hex8_def le_hex8_def hexdigit_def replicate_numeral
  add32_def not32_def rotr32_def rotl32_def
  sha256_hexdigest_def sha_blocks.simps sha_compress_def K256_def H256_def
  ssig0_def ssig1_def bsig0_def bsig1_def ch_def maj_def
  md5_hexdigest_def md5_blocks.simps md5_compress_def T_md5_def S_md5_def md5_init_def
  md5_f_def md5_g_def



section \<open>Validation of a DecisionBundle\<close>

lemma check_required_dict:
  assumes "\<And>f. f \<in> set fs \<Longrightarrow> \<exists>m p. mk f = ValidationException m (Some p) \<and> p \<noteq> []"
  shows "(check_required fs mk (VDict d) = Inr () \<and> \<not> lacks fs (VDict d))
       \<or> (is_verr (check_required fs mk (VDict d)) \<and> lacks fs (VDict d))"
  using assms
proof (induction fs)
  case Nil
  then show ?case by (simp add: lacks_def)
next
  case (Cons f fs)
  show ?case
  proof (cases "dict_has d f")
    case True
    with Cons show ?thesis by (simp add: ebind_def py_contains_def lacks_def)
  next
    case False
    with Cons.prems [of f] show ?thesis
      by (auto simp: ebind_def py_contains_def lacks_def is_verr_def)
  qed
qed

lemma validate_rule_dict:
  "(validate_rule (VDict d) i = Inr () \<and> \<not> rule_invalid (VDict d))
   \<or> (is_verr (validate_rule (VDict d) i) \<and> rule_invalid (VDict d))"
proof -
  let ?mk = "\<lambda>f. ValidationException (''Missing required rule field: '' @ f)
                     (Some (''rules['' @ str_nat i @ ''].'' @ f))"
  have mk: "\<And>f. f \<in> set rule_required_fields
    \<Longrightarrow> \<exists>m p. ?mk f = ValidationException m (Some p) \<and> p \<noteq> []" by simp
  from check_required_dict [of rule_required_fields ?mk d, OF mk]
  show ?thesis
  proof
    assume a: "check_required rule_required_fields ?mk (VDict d) = Inr () \<and> \<not> lacks rule_required_fields (VDict d)"
    then have "dict_has d ''type''"
      by (simp add: lacks_def rule_required_fields_def)
    then obtain t where t: "dict_get d ''type'' = Some t"
      by (auto simp: dict_has_def dict_get_def)
    with a show ?thesis
      by (simp add: validate_rule_def ebind_def py_getitem_def rule_invalid_def type_outside_def is_verr_def)
  next
    assume "is_verr (check_required rule_required_fields ?mk (VDict d)) \<and> lacks rule_required_fields (VDict d)"
    then show ?thesis
      by (auto simp: validate_rule_def ebind_def rule_invalid_def is_verr_def)
  qed
qed


lemma validate_decision_dict:
  assumes "decision_shaped (VDict d)"
  shows "(validate_decision (VDict d) i = Inr () \<and> \<not> lacks decision_required_fields (VDict d))
   \<or> is_verr (validate_decision (VDict d) i)"
proof -
  let ?mk = "\<lambda>f. ValidationException (''Missing required decision field: '' @ f)
                     (Some (''decisions['' @ str_nat i @ ''].'' @ f))"
  have mk: "\<And>f. f \<in> set decision_required_fields
    \<Longrightarrow> \<exists>m p. ?mk f = ValidationException m (Some p) \<and> p \<noteq> []" by simp
  from check_required_dict [of decision_required_fields ?mk d, OF mk]
  show ?thesis
  proof
    assume a: "check_required decision_required_fields ?mk (VDict d) = Inr ()
      \<and> \<not> lacks decision_required_fields (VDict d)"
    then have "dict_has d ''output''"
      by (simp add: lacks_def decision_required_fields_def)
    then obtain out where t: "dict_get d ''output'' = Some out"
      by (auto simp: dict_has_def dict_get_def)
    with assms obtain od where od: "out = VDict od"
      by (cases out) (auto simp: decision_shaped_def is_dict_def)
    from a t od show ?thesis
      by (simp add: validate_decision_def ebind_def py_getitem_def py_contains_def is_verr_def)
  next
    assume "is_verr (check_required decision_required_fields ?mk (VDict d))
      \<and> lacks decision_required_fields (VDict d)"
    then show ?thesis
      by (auto simp: validate_decision_def ebind_def is_verr_def)
  qed
qed

lemma validate_each_rules:
  "list_all is_dict rs \<Longrightarrow>
   (validate_each validate_rule rs i = Inr () \<and> \<not> list_ex rule_invalid rs)
   \<or> is_verr (validate_each validate_rule rs i)"
proof (induction rs arbitrary: i)
  case Nil
  then show ?case by simp
next
  case (Cons r rs)
  then obtain d where d: "r = VDict d" by (cases r) (auto simp: is_dict_def)
  from Cons have rest: "(validate_each validate_rule rs (Suc i) = Inr () \<and> \<not> list_ex rule_invalid rs)
   \<or> is_verr (validate_each validate_rule rs (Suc i))" by simp
  from validate_rule_dict [of d i] show ?case
  proof
    assume "validate_rule (VDict d) i = Inr () \<and> \<not> rule_invalid (VDict d)"
    with rest d show ?thesis by (auto simp: ebind_def)
  next
    assume "is_verr (validate_rule (VDict d) i) \<and> rule_invalid (VDict d)"
    with d show ?thesis by (auto simp: ebind_def is_verr_def)
  qed
qed

lemma validate_each_decisions:
  "list_all decision_shaped ds \<Longrightarrow>
   (validate_each validate_decision ds i = Inr () \<and> \<not> list_ex (lacks decision_required_fields) ds)
   \<or> is_verr (validate_each validate_decision ds i)"
proof (induction ds arbitrary: i)
  case Nil
  then show ?case by simp
next
  case (Cons r rs)
  then obtain d where d: "r = VDict d" by (cases r) (auto simp: decision_shaped_def)
  from Cons have rest: "(validate_each validate_decision rs (Suc i) = Inr ()
      \<and> \<not> list_ex (lacks decision_required_fields) rs)
   \<or> is_verr (validate_each validate_decision rs (Suc i))" by simp
  from Cons d have "decision_shaped (VDict d)" by simp
  from validate_decision_dict [OF this, of i] show ?case
  proof
    assume "validate_decision (VDict d) i = Inr () \<and> \<not> lacks decision_required_fields (VDict d)"
    with rest d show ?thesis by (auto simp: ebind_def)
  next
    assume "is_verr (validate_decision (VDict d) i)"
    with d show ?thesis by (auto simp: ebind_def is_verr_def)
  qed
qed

lemma validate_cases:
  assumes ws: "well_shaped bundle_data"
  shows "(validate bundle_data = Inr () \<and> \<not> violates bundle_data) \<or> is_verr (validate bundle_data)"
proof -
  let ?mk = "\<lambda>f. ValidationException (''Missing required field: '' @ f) (Some f)"
  let ?mkm = "\<lambda>f. ValidationException (''Missing required metadata field: '' @ f)
                     (Some (''metadata.'' @ f))"
  have mk: "\<And>f. f \<in> set top_required_fields
    \<Longrightarrow> \<exists>m p. ?mk f = ValidationException m (Some p) \<and> p \<noteq> []"
    by (auto simp: top_required_fields_def)
  have mkm: "\<And>f. f \<in> set required_metadata
    \<Longrightarrow> \<exists>m p. ?mkm f = ValidationException m (Some p) \<and> p \<noteq> []"
    by simp
  from check_required_dict [of top_required_fields ?mk bundle_data, OF mk]
  show ?thesis
  proof
    assume "is_verr (check_required top_required_fields ?mk (VDict bundle_data))
       \<and> lacks top_required_fields (VDict bundle_data)"
    then show ?thesis by (auto simp: validate_def ebind_def is_verr_def)
  next
    assume top: "check_required top_required_fields ?mk (VDict bundle_data) = Inr ()
       \<and> \<not> lacks top_required_fields (VDict bundle_data)"
    then have "dict_has bundle_data ''version''" "dict_has bundle_data ''metadata''"
      "dict_has bundle_data ''rules''" "dict_has bundle_data ''decisions''"
      by (simp_all add: lacks_def top_required_fields_def)
    then obtain v m r dc where got: "dict_get bundle_data ''version'' = Some v"
      "dict_get bundle_data ''metadata'' = Some m" "dict_get bundle_data ''rules'' = Some r"
      "dict_get bundle_data ''decisions'' = Some dc"
      by (auto simp: dict_has_def dict_get_def)
    from ws got obtain md rs ds where shp: "m = VDict md" "r = VList rs" "list_all is_dict rs"
      "dc = VList ds" "list_all decision_shaped ds"
      by (cases m; cases r; cases dc) (auto simp: well_shaped_def is_dict_def)
    show ?thesis
    proof (cases "py_eq v (VStr ''1.0'')")
      case False
      with top got show ?thesis
        by (simp add: validate_def ebind_def py_getitem_def is_verr_def)
    next
      case ver: True
      from check_required_dict [of required_metadata ?mkm md, OF mkm]
      show ?thesis
      proof
        assume "is_verr (check_required required_metadata ?mkm (VDict md))
          \<and> lacks required_metadata (VDict md)"
        with top got shp ver show ?thesis
          by (auto simp: validate_def ebind_def py_getitem_def is_verr_def)
      next
        assume meta: "check_required required_metadata ?mkm (VDict md) = Inr ()
          \<and> \<not> lacks required_metadata (VDict md)"
        then have "dict_has md ''domain''"
          by (simp add: lacks_def required_metadata_def)
        then obtain dm where dm: "dict_get md ''domain'' = Some dm"
          by (auto simp: dict_has_def dict_get_def)
        show ?thesis
        proof (cases "py_in dm (map VStr valid_domains)")
          case False
          with top got shp ver meta dm show ?thesis
            by (simp add: validate_def ebind_def py_getitem_def is_verr_def)
        next
          case dom: True
          from validate_each_rules [OF shp(3), of 0] show ?thesis
          proof
            assume "is_verr (validate_each validate_rule rs 0)"
            with top got shp ver meta dm dom show ?thesis
              by (auto simp: validate_def ebind_def py_getitem_def py_iter_def is_verr_def)
          next
            assume rules: "validate_each validate_rule rs 0 = Inr () \<and> \<not> list_ex rule_invalid rs"
            from validate_each_decisions [OF shp(5), of 0] show ?thesis
            proof
              assume "is_verr (validate_each validate_decision ds 0)"
              with top got shp ver meta dm dom rules show ?thesis
                by (auto simp: validate_def ebind_def py_getitem_def py_iter_def is_verr_def)
            next
              assume "validate_each validate_decision ds 0 = Inr ()
                \<and> \<not> list_ex (lacks decision_required_fields) ds"
              with top got shp ver meta dm dom rules show ?thesis
                by (simp add: validate_def ebind_def py_getitem_def py_iter_def violates_def
                    type_outside_def)
            qed
          qed
        qed
      qed
    qed
  qed
qed

text \<open>On data of the shapes of the data model (\<^verbatim>\<open>metadata\<close> a mapping, \<^verbatim>\<open>rules\<close> and
  \<^verbatim>\<open>decisions\<close> sequences of mappings, the \<^verbatim>\<open>output\<close> of a decision a mapping) the
  constructor refuses every defect with a ValidationException that carries a non-empty
  field path.\<close>

lemma shaped_bundle_refused:
  assumes "well_shaped bundle_data" and "violates bundle_data"
  shows "\<exists>msg field. DecisionBundle bundle_data = Inl (ValidationException msg (Some field)) \<and> field \<noteq> []"
  using validate_cases [OF assms(1)] assms(2)
  by (auto simp: DecisionBundle_def ebind_def is_verr_def)

lemmas validate_eval =
  DecisionBundle_def validate_def validate_rule_def validate_decision_def
  top_required_fields_def required_metadata_def rule_required_fields_def
  decision_required_fields_def valid_domains_def valid_types_def
  ebind_def py_contains_def py_getitem_def py_iter_def py_in_def dict_has_def dict_get_def

lemma python_rule_refused:
  "well_shaped python_rule_bundle \<and> violates python_rule_bundle \<and>
   DecisionBundle python_rule_bundle
     = Inl (ValidationException ''Invalid rule type: python'' (Some ''rules[1].type''))"
proof -
  have ws: "well_shaped python_rule_bundle"
    by (simp add: well_shaped_def python_rule_bundle_def dict_get_def is_dict_def
        decision_shaped_def)
  have v: "violates python_rule_bundle"
    by (simp add: violates_def python_rule_bundle_def dict_get_def lacks_def rule_invalid_def
        type_outside_def rule_required_fields_def valid_types_def py_in_def dict_has_def)
  have r: "DecisionBundle python_rule_bundle
      = Inl (ValidationException ''Invalid rule type: python'' (Some ''rules[1].type''))"
    by (simp add: python_rule_bundle_def validate_eval str_nat.simps digit_char_def py_str_def)
  from shaped_bundle_refused [OF ws v] ws v r show ?thesis by simp
qed

text \<open>
  Claim C9, at two failing inputs. The bundle data \<^verbatim>\<open>{"version": "1.0", "metadata": null,
  "rules": [], "decisions": []}\<close> lacks every required metadata field, and the data whose
  \<^verbatim>\<open>rules\<close> are \<^verbatim>\<open>[null, {..., "type": "python", ...}]\<close> holds a rule without its required
  fields and a rule of a type outside the four types. For both the constructor raises,
  but a TypeError and not a ValidationException: the validator tests \<^verbatim>\<open>field not in
  metadata\<close> and \<^verbatim>\<open>field not in rule\<close> on the null value.
\<close>

theorem null_metadata_is_type_error:
  "violates null_metadata_bundle
   \<and> DecisionBundle null_metadata_bundle = Inl (TypeError none_not_iterable)
   \<and> violates null_rule_bundle
   \<and> DecisionBundle null_rule_bundle = Inl (TypeError none_not_iterable)"
  by (simp add: null_metadata_bundle_def null_rule_bundle_def none_not_iterable_def violates_def
      lacks_def type_outside_def rule_invalid_def validate_eval)

section \<open>The evaluator of the DSL\<close>

lemmas temporal_eval =
  evaluate_def evaluate_temporal_condition_def get_variable_value_def dict_get_def ebind_def
  to_datetime_def fromisoformat_def parse_iso_def parse_hh_mm_ss_ff_def parse_digits_def
  parse_offset_def is_digit_def is_sign_def valid_datetime_def days_in_month_def is_leap_def
  replace_char_def as_number_def timedelta_seconds_def lookup_global_def dsl_parser_globals_def

lemmas cond_eval =
  evaluate_def evaluate_temporal_condition_def evaluate_variable_condition_def
  get_variable_value_def dict_get_def ebind_def to_datetime_def not_supported_def result_of_def
  boolean_literal_result_def py_getitem_def

text \<open>A temporal condition \<^verbatim>\<open>WITHIN\<close> or \<^verbatim>\<open>EXPIRES\<close> whose duration is a number never
  reaches its comparison: the name \<^verbatim>\<open>timezone\<close> is not bound in the module.\<close>

lemma timedelta_in_range:
  assumes "\<bar>n\<bar> \<le> 86400 * 999999999"
  shows "timedelta_seconds n = Inr (n * 1000000)"
proof -
  from assms have "n \<le> 999999999 * 86400" "- 999999999 * 86400 \<le> n" by simp_all
  then have "n div 86400 \<le> 999999999 * 86400 div 86400"
    "- 999999999 * 86400 div 86400 \<le> n div 86400"
    by (simp_all only: zdiv_mono1 zero_less_numeral)
  then have "- 999999999 \<le> n div 86400" "n div 86400 \<le> 999999999" by simp_all
  then show ?thesis
    by (simp add: timedelta_seconds_def Let_def)
qed

lemma temporal_needs_timezone:
  assumes "op = ''WITHIN'' \<or> op = ''EXPIRES''"
    and "get_value variable ctx = Inr v" and "to_datetime v = Inr v'"
    and "get_value val ctx = Inr w" and "num_of w = Some n" and "\<bar>n\<bar> \<le> 86400 * 999999999"
  shows "evaluate_temporal_condition now variable op val ctx = Inl (NameError timezone_undefined)"
proof -
  from assms(5) have "to_datetime w = Inr w"
    by (cases w) (simp_all add: to_datetime_def)
  with assms timedelta_in_range [OF assms(6)] show ?thesis
    by (auto simp: evaluate_temporal_condition_def ebind_def as_number_def
        lookup_global_def dsl_parser_globals_def timezone_undefined_def)
qed

text \<open>
  Claim C5, at a failing input. The context holds the UTC timestamp
  \<^verbatim>\<open>2024-06-01T11:30:00+00:00\<close> and the rule is \<^verbatim>\<open>WHEN consent.given_at WITHIN 3600
  THEN TRUE\<close> (or \<^verbatim>\<open>EXPIRES AFTER 3600\<close>). Whatever the clock reads, the evaluation
  returns the record of an evaluation error, with result false, and not the result of the
  comparison the claim describes.
\<close>

theorem within_is_evaluation_error:
  "evaluate now within_rule recent_ctx =
     Inr [(''result'', VBool False),
          (''reason'', VStr (''Evaluation error: '' @ timezone_undefined)),
          (''error'', VStr timezone_undefined)]
   \<and> evaluate now expires_rule recent_ctx = evaluate now within_rule recent_ctx"
  by (simp add: within_rule_def expires_rule_def recent_ctx_def timezone_undefined_def
      temporal_eval)

text \<open>
  Claim C6 as stated is refuted: with \<^verbatim>\<open>flag\<close> true, the condition \<^verbatim>\<open>flag\<close> alone is
  true and decides \<^verbatim>\<open>flag OR missing BEFORE 5\<close>, yet the right operand is evaluated, its
  TypeError is the outcome of the compound condition, and the rule that passes with the
  condition \<^verbatim>\<open>flag\<close> fails with an evaluation error.
\<close>

theorem compound_not_short_circuit:
  "evaluate_condition noon flag_set flag_ctx = Inr [(''result'', VBool True), (''variable'', VBool True)]
   \<and> evaluate_condition noon missing_before_5 flag_ctx = Inl (TypeError none_vs_int)
   \<and> evaluate_condition noon (Compound_condition flag_set ''OR'' missing_before_5) flag_ctx
       = Inl (TypeError none_vs_int)
   \<and> evaluate noon (Rule flag_set (Some (Expression (Boolean_literal True))) None) flag_ctx
       = Inr [(''result'', VBool True), (''reason'', VStr ''Boolean literal''),
              (''details'', VDict [(''condition'', VDict [(''result'', VBool True), (''variable'', VBool True)]),
                                    (''consequence'', VDict [(''result'', VBool True), (''reason'', VStr ''Boolean literal'')])])]
   \<and> evaluate noon (Rule (Compound_condition flag_set ''OR'' missing_before_5)
         (Some (Expression (Boolean_literal True))) None) flag_ctx
       = Inr [(''result'', VBool False),
              (''reason'', VStr (''Evaluation error: '' @ none_vs_int)),
              (''error'', VStr none_vs_int)]"
  by (simp add: flag_set_def missing_before_5_def flag_ctx_def none_vs_int_def cond_eval)

text \<open>
  Claim C6, amended. A compound condition evaluates both operands, the left one first,
  whatever the operator and the left result. When the left operand raises, the compound
  condition raises the same exception, whatever the right operand would do; when the left
  operand returns a record and the right one raises, the compound condition raises the
  exception of the right operand; when both return records, the result is their
  conjunction for \<^verbatim>\<open>AND\<close> and their disjunction for \<^verbatim>\<open>OR\<close>, and both records are kept in
  the result. An exception of the compound condition makes \<^verbatim>\<open>evaluate\<close> return the record
  of an evaluation error, with result false and the text of the exception.
\<close>

theorem compound_evaluates_both:
  "(evaluate_condition now a ctx = Inl e \<longrightarrow>
      evaluate_condition now (Compound_condition a op b) ctx = Inl e)
   \<and> (evaluate_condition now a ctx = Inr l \<and> evaluate_condition now b ctx = Inl e \<longrightarrow>
        evaluate_condition now (Compound_condition a op b) ctx = Inl e)
   \<and> (evaluate_condition now a ctx = Inr l \<and> evaluate_condition now b ctx = Inr r \<longrightarrow>
        (\<exists>res. evaluate_condition now (Compound_condition a op b) ctx = Inr res
           \<and> (op = ''AND'' \<longrightarrow> result_of res = (result_of l \<and> result_of r))
           \<and> (op = ''OR'' \<longrightarrow> result_of res = (result_of l \<or> result_of r))
           \<and> dict_get res ''left'' = Some (VDict l)
           \<and> dict_get res ''right'' = Some (VDict r)))
   \<and> (evaluate_condition now (Compound_condition a op b) ctx = Inl e \<and> (\<forall>m. e \<noteq> Unmodelled m) \<longrightarrow>
        evaluate now (Rule (Compound_condition a op b) cons act) ctx
          = Inr [(''result'', VBool False),
                 (''reason'', VStr (''Evaluation error: '' @ exc_str e)),
                 (''error'', VStr (exc_str e))])"
proof -
  have "evaluate_condition now (Compound_condition a op b) ctx = Inl e \<Longrightarrow> (\<forall>m. e \<noteq> Unmodelled m)
     \<Longrightarrow> evaluate now (Rule (Compound_condition a op b) cons act) ctx
          = Inr [(''result'', VBool False),
                 (''reason'', VStr (''Evaluation error: '' @ exc_str e)),
                 (''error'', VStr (exc_str e))]"
    by (cases e) (simp_all add: evaluate_def ebind_def del: evaluate_condition.simps)
  then show ?thesis
    by (simp add: ebind_def result_of_def dict_get_def)
qed

theorem compound_evaluates_both_witness:
  "evaluate_condition noon missing_before_5 flag_ctx = Inl (TypeError none_vs_int)
   \<and> evaluate_condition noon unknown_x flag_ctx = Inl (ValueError ''Unknown condition type: x'')
   \<and> evaluate_condition noon (Compound_condition missing_before_5 ''AND'' unknown_x) flag_ctx
       = Inl (TypeError none_vs_int)
   \<and> evaluate_condition noon flag_set flag_ctx = Inr [(''result'', VBool True), (''variable'', VBool True)]
   \<and> evaluate_condition noon (Compound_condition flag_set ''OR'' missing_before_5) flag_ctx
       = Inl (TypeError none_vs_int)
   \<and> evaluate noon (Rule (Compound_condition flag_set ''OR'' missing_before_5)
         (Some (Expression (Boolean_literal True))) None) flag_ctx
       = Inr [(''result'', VBool False),
              (''reason'', VStr (''Evaluation error: '' @ none_vs_int)),
              (''error'', VStr none_vs_int)]
   \<and> (\<exists>res. evaluate_condition noon (Compound_condition flag_set ''AND'' flag_set) flag_ctx = Inr res
        \<and> result_of res \<and> dict_get res ''left'' = dict_get res ''right'')"
proof -
  let ?t = "[(''result'', VBool True), (''variable'', VBool True)]"
  have a: "evaluate_condition noon flag_set flag_ctx = Inr ?t"
    by (simp add: flag_set_def flag_ctx_def cond_eval)
  have b: "evaluate_condition noon missing_before_5 flag_ctx = Inl (TypeError none_vs_int)"
    by (simp add: missing_before_5_def flag_ctx_def none_vs_int_def cond_eval)
  have u: "evaluate_condition noon unknown_x flag_ctx = Inl (ValueError ''Unknown condition type: x'')"
    by (simp add: unknown_x_def)
  have m: "\<forall>m. TypeError none_vs_int \<noteq> Unmodelled m" by simp
  note left = compound_evaluates_both [of noon missing_before_5 flag_ctx "TypeError none_vs_int"
      "''AND''" unknown_x]
  note right = compound_evaluates_both [of noon flag_set flag_ctx "TypeError none_vs_int"
      "''OR''" missing_before_5 ?t _ "Some (Expression (Boolean_literal True))" None]
  note both = compound_evaluates_both [of noon flag_set flag_ctx _ "''AND''" flag_set ?t ?t]
  from left b have c1: "evaluate_condition noon (Compound_condition missing_before_5 ''AND'' unknown_x) flag_ctx
       = Inl (TypeError none_vs_int)" by blast
  from right a b have c2: "evaluate_condition noon (Compound_condition flag_set ''OR'' missing_before_5) flag_ctx
       = Inl (TypeError none_vs_int)" by blast
  from right c2 m have c3: "evaluate noon (Rule (Compound_condition flag_set ''OR'' missing_before_5)
         (Some (Expression (Boolean_literal True))) None) flag_ctx
       = Inr [(''result'', VBool False),
              (''reason'', VStr (''Evaluation error: '' @ exc_str (TypeError none_vs_int))),
              (''error'', VStr (exc_str (TypeError none_vs_int)))]" by blast
  from both a have "\<exists>res. evaluate_condition noon (Compound_condition flag_set ''AND'' flag_set) flag_ctx = Inr res
           \<and> (''AND'' = ''AND'' \<longrightarrow> result_of res = (result_of ?t \<and> result_of ?t))
           \<and> (''AND'' = ''OR'' \<longrightarrow> result_of res = (result_of ?t \<or> result_of ?t))
           \<and> dict_get res ''left'' = Some (VDict ?t)
           \<and> dict_get res ''right'' = Some (VDict ?t)" by blast
  then have c4: "\<exists>res. evaluate_condition noon (Compound_condition flag_set ''AND'' flag_set) flag_ctx = Inr res
        \<and> result_of res \<and> dict_get res ''left'' = dict_get res ''right''"
    by (auto simp: result_of_def dict_get_def)
  from a b u c1 c2 c3 c4 show ?thesis by simp
qed

lemma walk_missing: "path_missing parts v \<Longrightarrow> walk_parts parts v = VNone"
  by (induction parts arbitrary: v) (auto split: pyval.splits option.splits)

lemma unresolved_is_none: "unresolved name ctx \<Longrightarrow> get_variable_value name ctx = VNone"
  by (simp add: unresolved_def get_variable_value_def walk_missing)

lemma cmp_none: "py_cmp op VNone w = Inl (not_supported op VNone w)"
  by (cases w) simp_all

text \<open>
  Claim C8 as stated is refuted: \<^verbatim>\<open>user.age\<close> is missing from the context and resolves
  to the null value, and the comparison \<^verbatim>\<open>user.age != 18\<close> is true, as a condition and as
  a constraint.
\<close>

theorem missing_variable_not_equal_is_true:
  "unresolved ''user.age'' user_ctx
   \<and> get_variable_value ''user.age'' user_ctx = VNone
   \<and> evaluate_simple_condition (Variable ''user.age'') ''!='' (Number_value 18) user_ctx
       = Inr [(''result'', VBool True), (''left'', VNone), (''operator'', VStr ''!=''),
              (''right'', VInt 18)]
   \<and> evaluate_constraint (Variable ''user.age'') ''!='' (Number_value 18) user_ctx
       = Inr [(''result'', VBool True), (''variable'', VNone), (''operator'', VStr ''!=''),
              (''value'', VInt 18)]"
  by (simp add: unresolved_def user_ctx_def get_variable_value_def dict_get_def
      evaluate_simple_condition_def evaluate_constraint_def ebind_def apply_operator_def
      except_type_value_def)

text \<open>
  Claim C8, amended. A variable whose dotted path misses resolves to the null value. As a
  condition and as a constraint, its comparison with a value \<open>w\<close> is then false for
  \<^verbatim>\<open><\<close>, \<^verbatim>\<open><=\<close>, \<^verbatim>\<open>>\<close> and \<^verbatim>\<open>>=\<close>; for \<^verbatim>\<open>=\<close> it is true exactly when \<open>w\<close> is null as well,
  and for \<^verbatim>\<open>!=\<close> exactly when \<open>w\<close> is not null; \<^verbatim>\<open>LIKE\<close> with a string pattern matches
  the pattern against the text \<^verbatim>\<open>None\<close>.
\<close>

theorem missing_variable_comparisons:
  assumes "unresolved name ctx" and "get_value right ctx = Inr w"
  shows "get_variable_value name ctx = VNone
    \<and> (op \<in> {''<'', ''<='', ''>'', ''>=''} \<longrightarrow>
           evaluate_simple_condition (Variable name) op right ctx
             = Inr [(''result'', VBool False), (''left'', VNone), (''operator'', VStr op), (''right'', w)]
         \<and> evaluate_constraint (Variable name) op right ctx
             = Inr [(''result'', VBool False), (''variable'', VNone), (''operator'', VStr op), (''value'', w)])
    \<and> evaluate_simple_condition (Variable name) ''='' right ctx
           = Inr [(''result'', VBool (w = VNone)), (''left'', VNone), (''operator'', VStr ''=''), (''right'', w)]
    \<and> evaluate_constraint (Variable name) ''='' right ctx
           = Inr [(''result'', VBool (w = VNone)), (''variable'', VNone), (''operator'', VStr ''=''), (''value'', w)]
    \<and> evaluate_simple_condition (Variable name) ''!='' right ctx
           = Inr [(''result'', VBool (w \<noteq> VNone)), (''left'', VNone), (''operator'', VStr ''!=''), (''right'', w)]
    \<and> evaluate_constraint (Variable name) ''!='' right ctx
           = Inr [(''result'', VBool (w \<noteq> VNone)), (''variable'', VNone), (''operator'', VStr ''!=''), (''value'', w)]
    \<and> (\<forall>p. w = VStr p \<longrightarrow>
           apply_operator (get_variable_value name ctx) ''LIKE'' w
             = re_match (''^'' @ replace_char CHR ''_'' ''.'' (replace_char CHR ''%'' ''.*'' p) @ ''$'') ''None'')"
proof -
  have n: "get_variable_value name ctx = VNone"
    using assms(1) by (rule unresolved_is_none)
  have ord: "op \<in> {''<'', ''<='', ''>'', ''>=''} \<longrightarrow>
           evaluate_simple_condition (Variable name) op right ctx
             = Inr [(''result'', VBool False), (''left'', VNone), (''operator'', VStr op), (''right'', w)]
         \<and> evaluate_constraint (Variable name) op right ctx
             = Inr [(''result'', VBool False), (''variable'', VNone), (''operator'', VStr op), (''value'', w)]"
    using n assms(2)
    by (auto simp: evaluate_simple_condition_def evaluate_constraint_def ebind_def
        apply_operator_def except_type_value_def cmp_none not_supported_def)
  have eq: "evaluate_simple_condition (Variable name) ''='' right ctx
           = Inr [(''result'', VBool (w = VNone)), (''left'', VNone), (''operator'', VStr ''=''), (''right'', w)]
         \<and> evaluate_constraint (Variable name) ''='' right ctx
           = Inr [(''result'', VBool (w = VNone)), (''variable'', VNone), (''operator'', VStr ''=''), (''value'', w)]"
    using n assms(2)
    by (simp add: evaluate_simple_condition_def evaluate_constraint_def ebind_def
        apply_operator_def except_type_value_def)
  have ne: "evaluate_simple_condition (Variable name) ''!='' right ctx
           = Inr [(''result'', VBool (w \<noteq> VNone)), (''left'', VNone), (''operator'', VStr ''!=''), (''right'', w)]
         \<and> evaluate_constraint (Variable name) ''!='' right ctx
           = Inr [(''result'', VBool (w \<noteq> VNone)), (''variable'', VNone), (''operator'', VStr ''!=''), (''value'', w)]"
    using n assms(2)
    by (simp add: evaluate_simple_condition_def evaluate_constraint_def ebind_def
        apply_operator_def except_type_value_def)
  have lk: "\<forall>p. w = VStr p \<longrightarrow>
           apply_operator (get_variable_value name ctx) ''LIKE'' w
             = re_match (''^'' @ replace_char CHR ''_'' ''.'' (replace_char CHR ''%'' ''.*'' p) @ ''$'') ''None''"
    using n
    by (simp add: apply_operator_def like_def py_str_def except_type_value_def re_match_def
        split: option.splits)
  from n ord eq ne lk show ?thesis by simp
qed

theorem missing_variable_comparisons_witness:
  "unresolved ''user.age'' user_ctx
   \<and> get_value (String_value ''N%'') user_ctx = Inr (VStr ''N%'')
   \<and> evaluate_simple_condition (Variable ''user.age'') ''<'' (String_value ''N%'') user_ctx
       = Inr [(''result'', VBool False), (''left'', VNone), (''operator'', VStr ''<''),
              (''right'', VStr ''N%'')]
   \<and> evaluate_constraint (Variable ''user.age'') ''='' (String_value ''N%'') user_ctx
       = Inr [(''result'', VBool False), (''variable'', VNone), (''operator'', VStr ''=''),
              (''value'', VStr ''N%'')]
   \<and> apply_operator (get_variable_value ''user.age'' user_ctx) ''LIKE'' (VStr ''N%'') = Inr True"
proof -
  have u: "unresolved ''user.age'' user_ctx"
    by (simp add: unresolved_def user_ctx_def dict_get_def)
  have g: "get_value (String_value ''N%'') user_ctx = Inr (VStr ''N%'')"
    by simp
  have m: "re_match (''^'' @ replace_char CHR ''_'' ''.'' (replace_char CHR ''%'' ''.*'' ''N%'') @ ''$'')
     ''None'' = Inr True"
    by (simp add: re_match_def parse_regex_def parse_items.simps parse_atom_def is_meta_def
        is_ascii_punct_def replace_char_def)
  note all = missing_variable_comparisons [OF u g, of "''<''"]
  from all have lt: "evaluate_simple_condition (Variable ''user.age'') ''<'' (String_value ''N%'') user_ctx
       = Inr [(''result'', VBool False), (''left'', VNone), (''operator'', VStr ''<''),
              (''right'', VStr ''N%'')]"
    by blast
  from all have "evaluate_constraint (Variable ''user.age'') ''='' (String_value ''N%'') user_ctx
       = Inr [(''result'', VBool (VStr ''N%'' = VNone)), (''variable'', VNone),
              (''operator'', VStr ''=''), (''value'', VStr ''N%'')]"
    by blast
  then have eq: "evaluate_constraint (Variable ''user.age'') ''='' (String_value ''N%'') user_ctx
       = Inr [(''result'', VBool False), (''variable'', VNone), (''operator'', VStr ''=''),
              (''value'', VStr ''N%'')]"
    by simp
  from all have "apply_operator (get_variable_value ''user.age'' user_ctx) ''LIKE'' (VStr ''N%'')
      = re_match (''^'' @ replace_char CHR ''_'' ''.'' (replace_char CHR ''%'' ''.*'' ''N%'') @ ''$'')
          ''None''"
    by blast
  then have lk: "apply_operator (get_variable_value ''user.age'' user_ctx) ''LIKE'' (VStr ''N%'')
      = Inr True"
    using m by (rule trans)
  from u g lt eq lk show ?thesis by blast
qed

section \<open>The tokenizer\<close>

text \<open>
  Claim C7, at a failing input. The text \<^verbatim>\<open>name LIKE 'a%'\<close> holds the standalone
  lexeme \<^verbatim>\<open>LIKE\<close>; the tokenizer emits it as a token of kind identifier, and no token of
  kind operator.
\<close>

theorem like_is_an_identifier:
  "tokenize like_text =
     Inr [\<lparr>kind = ''identifier'', lexeme = ''name'', position = 0\<rparr>,
          \<lparr>kind = ''identifier'', lexeme = ''LIKE'', position = 5\<rparr>,
          \<lparr>kind = ''string'', lexeme = [CHR 0x27] @ ''a%'' @ [CHR 0x27], position = 10\<rparr>]"
  by code_simp

text \<open>The operator branch of the tokenizer is entered on one of the four characters
  \<^verbatim>\<open>= ! > <\<close> only, so a token of kind operator is never \<^verbatim>\<open>LIKE\<close>, although \<^verbatim>\<open>LIKE\<close> is
  a member of \<open>OPERATORS\<close>.\<close>

lemma operator_lexeme:
  assumes "next_token s pos = Inr (Some k)" "kind k = ''operator''"
  shows "lexeme k \<in> {''='', ''!='', ''>'', ''>='', ''<'', ''<=''}"
proof -
  from assms have "parse_operator s pos = Inr k"
    by (auto simp: next_token_def Let_def parse_number_def parse_identifier_def parse_string_def
        map_sum_def split: if_splits sum.splits)
  moreover have "length (slice s pos (pos + 2)) \<le> 2" by (simp add: slice_def)
  ultimately show ?thesis
    by (auto simp: parse_operator_def OPERATORS_def split: if_splits)
qed

lemma tokenize_from_operators:
  "tokenize_from s pos = Inr ts \<Longrightarrow> k \<in> set ts \<Longrightarrow> kind k = ''operator''
   \<Longrightarrow> lexeme k \<in> {''='', ''!='', ''>'', ''>='', ''<'', ''<=''}"
proof (induction s pos arbitrary: ts rule: tokenize_from.induct)
  case (1 s pos)
  show ?case
  proof (cases "pos < length s")
    case False
    with "1.prems" show ?thesis by (simp add: tokenize_from.simps)
  next
    case True
    with "1.prems"(1) obtain t rest where t: "next_token s pos = Inr t"
      and rest: "tokenize_from s (pos + advance t) = Inr rest"
      and ts: "ts = (case t of None \<Rightarrow> rest | Some k \<Rightarrow> k # rest)"
      by (subst (asm) tokenize_from.simps) (auto split: sum.splits)
    show ?thesis
    proof (cases "k \<in> set rest")
      case True
      from "1.IH" [OF \<open>pos < length s\<close> t rest True "1.prems"(3)] show ?thesis .
    next
      case False
      with ts "1.prems"(2) have "t = Some k" by (cases t) auto
      with t "1.prems"(3) show ?thesis using operator_lexeme [of s pos k] by simp
    qed
  qed
qed

section \<open>Timestamps written and read back\<close>

text \<open>A valid UTC datetime written by \<^verbatim>\<open>isoformat\<close> is read back by \<^verbatim>\<open>fromisoformat\<close> as
  the same datetime.\<close>

lemma digit_char_code: "(of_char (digit_char n) :: nat) = 48 + n mod 10"
proof -
  have "\<forall>k \<in> {..<10::nat}. (of_char (''0123456789'' ! k) :: nat) = 48 + k"
    by (simp add: lessThan_nat_numeral lessThan_Suc)
  moreover have "n mod 10 \<in> {..<10}" by simp
  ultimately show ?thesis unfolding digit_char_def by blast
qed

lemma digit_char_is_digit: "is_digit (digit_char n)"
  by (simp add: is_digit_def digit_char_code)

lemma digit_char_distinct:
  "digit_char n \<noteq> CHR ''Z''" "digit_char n \<noteq> CHR ''+''" "digit_char n \<noteq> CHR ''-''"
  "digit_char n \<noteq> CHR '':''" "digit_char n \<noteq> CHR ''.''"
proof -
  have c: "\<And>c. (of_char c :: nat) \<noteq> of_char (digit_char n) \<Longrightarrow> digit_char n \<noteq> c" by auto
  show "digit_char n \<noteq> CHR ''Z''" by (rule c) (simp add: digit_char_code)
  show "digit_char n \<noteq> CHR ''+''" by (rule c) (simp add: digit_char_code)
  show "digit_char n \<noteq> CHR ''-''" by (rule c) (simp add: digit_char_code)
  show "digit_char n \<noteq> CHR '':''" by (rule c) (simp add: digit_char_code)
  show "digit_char n \<noteq> CHR ''.''" by (rule c) (simp add: digit_char_code)
qed

lemma parse_zfill2: "n < 100 \<Longrightarrow> parse_digits (zfill2 n) = Some n"
  by (simp add: parse_digits_def zfill2_def digit_char_is_digit digit_char_code)



lemma div_digit: "(n::nat) div k = 10 * (n div (10 * k)) + n div k mod 10"
proof -
  have "n div (10 * k) = n div k div 10"
    by (simp add: div_mult2_eq mult.commute)
  then show ?thesis by simp
qed

lemma digits4:
  "1000 * (n div 1000) + 100 * (n div 100 mod 10) + 10 * (n div 10 mod 10) + n mod 10 = (n::nat)"
proof -
  have "\<And>d1 d2 d3 r0 r1 r2 :: nat. n = 10 * d1 + r0 \<Longrightarrow> d1 = 10 * d2 + r1 \<Longrightarrow> d2 = 10 * d3 + r2
    \<Longrightarrow> 1000 * d3 + 100 * r2 + 10 * r1 + r0 = n" by simp
  moreover have "n = 10 * (n div 10) + n mod 10" by simp
  moreover have "n div 10 = 10 * (n div 100) + n div 10 mod 10"
    using div_digit [of n 10] by simp
  moreover have "n div 100 = 10 * (n div 1000) + n div 100 mod 10"
    using div_digit [of n 100] by simp
  ultimately show ?thesis by blast
qed

lemma digits6:
  "100000 * (n div 100000) + 10000 * (n div 10000 mod 10) + 1000 * (n div 1000 mod 10)
     + 100 * (n div 100 mod 10) + 10 * (n div 10 mod 10) + n mod 10 = (n::nat)"
proof -
  have "\<And>d1 d2 d3 d4 d5 r0 r1 r2 r3 r4 :: nat. n = 10 * d1 + r0 \<Longrightarrow> d1 = 10 * d2 + r1
    \<Longrightarrow> d2 = 10 * d3 + r2 \<Longrightarrow> d3 = 10 * d4 + r3 \<Longrightarrow> d4 = 10 * d5 + r4
    \<Longrightarrow> 100000 * d5 + 10000 * r4 + 1000 * r3 + 100 * r2 + 10 * r1 + r0 = n" by simp
  moreover have "n = 10 * (n div 10) + n mod 10" by simp
  moreover have "n div 10 = 10 * (n div 100) + n div 10 mod 10"
    using div_digit [of n 10] by simp
  moreover have "n div 100 = 10 * (n div 1000) + n div 100 mod 10"
    using div_digit [of n 100] by simp
  moreover have "n div 1000 = 10 * (n div 10000) + n div 1000 mod 10"
    using div_digit [of n 1000] by simp
  moreover have "n div 10000 = 10 * (n div 100000) + n div 10000 mod 10"
    using div_digit [of n 10000] by simp
  ultimately show ?thesis by blast
qed

lemma parse_zfill4: "n < 10000 \<Longrightarrow> parse_digits (zfill4 n) = Some n"
  by (simp add: parse_digits_def zfill4_def digit_char_is_digit digit_char_code digits4)

lemma parse_zfill6: "n < 1000000 \<Longrightarrow> parse_digits (zfill6 n) = Some n"
  by (simp add: parse_digits_def zfill6_def digit_char_is_digit digit_char_code digits6)


lemma fromisoformat_isoformat:
  assumes v: "valid_datetime d" and utc: "utcoffset d = Some 0"
  shows "fromisoformat (replace_char CHR ''Z'' ''+00:00'' (isoformat d)) = Inr d"
proof -
  from v have b: "year d < 10000" "month d < 100" "day d < 100" "hour d < 100"
    "minute d < 100" "second d < 100" "microsecond d < 1000000"
    by (auto simp: valid_datetime_def days_in_month_def split: if_splits)
  have z00: "parse_digits ''00'' = Some 0"
    by (simp add: parse_digits_def is_digit_def)
  note p = parse_zfill4 [OF b(1)] parse_zfill2 [OF b(2)] parse_zfill2 [OF b(3)]
    parse_zfill2 [OF b(4)] parse_zfill2 [OF b(5)] parse_zfill2 [OF b(6)] parse_zfill6 [OF b(7)]
  have "parse_iso (replace_char CHR ''Z'' ''+00:00'' (isoformat d)) = Some d"
  proof (cases "microsecond d = 0")
    case True
    with p z00 utc show ?thesis
      by (simp add: isoformat_def isoformat_sep_def format_offset_def replace_char_def
        zfill2_def zfill4_def zfill6_def digit_char_distinct digit_char_def [of 0]
        parse_iso_def is_sign_def parse_hh_mm_ss_ff_def parse_offset_def)
  next
    case False
    with p z00 utc show ?thesis
      by (simp add: isoformat_def isoformat_sep_def format_offset_def replace_char_def
        zfill2_def zfill4_def zfill6_def digit_char_distinct digit_char_def [of 0]
        parse_iso_def is_sign_def parse_hh_mm_ss_ff_def parse_offset_def)
  qed
  moreover have "list_all is_digit (take 4 (replace_char CHR ''Z'' ''+00:00'' (isoformat d)))"
    "4 \<le> length (replace_char CHR ''Z'' ''+00:00'' (isoformat d))"
    by (simp_all add: isoformat_def isoformat_sep_def replace_char_def zfill4_def
        digit_char_distinct digit_char_is_digit)
  ultimately show ?thesis using v
    by (simp add: fromisoformat_def)
qed

lemma sha256_hexdigest_length: "length (sha256_hexdigest m) = 64"
proof -
  have "length (sha_hex s) = 64" for s
    by (cases s rule: sha_hex.cases) (simp add: hex8_def)
  then show ?thesis by (simp add: sha256_hexdigest_def)
qed

lemma sha256_hexdigest_nonempty: "sha256_hexdigest m \<noteq> []"
  using sha256_hexdigest_length [of m] by auto

lemma store_evidence_get: "evidence_store (store_evidence e m) (ev_id e) = Some e"
  by (simp add: store_evidence_def ev_update_indexes_def)

lemma store_audit_entry_get: "audit_store (store_audit_entry e t) (au_id e) = Some e"
  by (simp add: store_audit_entry_def au_update_indexes_def Let_def split: option.splits)

section \<open>Evidence records and audit entries\<close>

subsection \<open>The digests of the records used below\<close>

lemma login_digest:
  "sha256_hexdigest (encode ''login:alice:{}:2024-06-01T12:00:00+00:00'')
     = ''f3a382c674d08ad75d2280af5d974480e02680cdd5671935ef36d18f233867cf''"
  by (simp add: digest_defs)

lemma logout_digest:
  "sha256_hexdigest (encode ''logout:alice:{}:2024-06-01T12:00:05+00:00'')
     = ''40765b410680e7095999d1882825c0ffdca044d48719c27b120a4b29d4c4106d''"
  by (simp add: digest_defs)

lemma started_digest:
  "sha256_hexdigest (encode ([CHR ''{'', CHR 0x22] @ ''msg'' @ [CHR 0x22] @ '': '' @ [CHR 0x22] @ ''started'' @ [CHR 0x22, CHR ''}'']))
     = ''48b1f674d8db7da25987289a0d1232338ba81db0bd968fa8273334feea8c026c''"
  by (simp add: digest_defs)

lemma sorted_digest:
  "sha256_hexdigest (encode
     (''f3a382c674d08ad75d2280af5d974480e02680cdd5671935ef36d18f233867cf'' @
      ''40765b410680e7095999d1882825c0ffdca044d48719c27b120a4b29d4c4106d''))
     = ''dd9f87cc0d24e7dc678e1f91d4c8b9a25d1bf65b7704a1b7d7f7aefe04c1eab6''"
  by (simp add: digest_defs)

lemma listed_digest:
  "sha256_hexdigest (encode
     (''40765b410680e7095999d1882825c0ffdca044d48719c27b120a4b29d4c4106d'' @
      ''f3a382c674d08ad75d2280af5d974480e02680cdd5671935ef36d18f233867cf''))
     = ''525cb7dac41ffb3d8b877e97783328c9828906f62da251f4f76375582d9f1935''"
  by (simp add: digest_defs)

lemma encode_concat: "concat (map (\<lambda>e. encode (f e)) es) = encode (concat (map f es))"
  by (induction es) (simp_all add: encode_def)

lemma hash_of_hashes_text: "hash_of_hashes es = sha256_hexdigest (encode (concat (map au_hash es)))"
  by (simp add: hash_of_hashes_def encode_concat)

lemma noon_text: "isoformat noon = ''2024-06-01T12:00:00+00:00''"
  by (simp add: noon_def isoformat_def isoformat_sep_def zfill2_def zfill4_def format_offset_def
      digit_char_def)

lemma five_past_text: "isoformat five_past = ''2024-06-01T12:00:05+00:00''"
  by (simp add: five_past_def isoformat_def isoformat_sep_def zfill2_def zfill4_def
      format_offset_def digit_char_def)

lemma noon_utc: "valid_datetime noon \<and> utcoffset noon = Some 0"
  by (simp add: noon_def valid_datetime_def days_in_month_def)

lemma five_past_utc: "valid_datetime five_past \<and> utcoffset five_past = Some 0"
  by (simp add: five_past_def valid_datetime_def days_in_month_def)

lemma empty_details: "json_dumps dflt [] = Inr ''{}''"
  by (simp add: json_dumps_def ebind_def join_def)

lemma login_created:
  "create_audit_entry noon noon ''login'' ''alice'' [] (Some ''a1'') None new_audit_trail
     = Inr (login_entry, one_entry)"
  using login_digest
  by (simp add: Let_def create_audit_entry_def au_calculate_hash_def empty_details ebind_def noon_text
      store_audit_entry_def au_update_indexes_def index_add_def new_audit_trail_def
      login_entry_def one_entry_def)

lemma logout_created:
  "create_audit_entry five_past five_past ''logout'' ''alice'' [] (Some ''a2'') None one_entry
     = Inr (logout_entry, two_entries)"
  using logout_digest
  by (simp add: Let_def create_audit_entry_def au_calculate_hash_def empty_details ebind_def
      five_past_text store_audit_entry_def au_update_indexes_def index_add_def
      logout_entry_def one_entry_def two_entries_def)

lemma started_created:
  "create_evidence noon noon ''log'' [(''msg'', VStr ''started'')] ''system'' (Some ''e1'')
     new_evidence_manager = Inr (started_evidence, one_evidence)"
  using started_digest
  by (simp add: Let_def create_evidence_def VALID_EVIDENCE_TYPES_def ev_calculate_hash_def json_dumps_def
      json_str_def json_char_def join_def ebind_def noon_text store_evidence_def
      ev_update_indexes_def index_add_def new_evidence_manager_def started_evidence_def
      one_evidence_def)

lemma login_hash: "au_calculate_hash ''login'' ''alice'' [] noon = Inr (au_hash login_entry)"
  using login_digest
  by (simp add: au_calculate_hash_def empty_details ebind_def noon_text login_entry_def)

lemma logout_hash: "au_calculate_hash ''logout'' ''alice'' [] five_past = Inr (au_hash logout_entry)"
  using logout_digest
  by (simp add: au_calculate_hash_def empty_details ebind_def five_past_text logout_entry_def)

lemma login_verifies:
  assumes "audit_store t ''a1'' = Some login_entry"
  shows "verify_audit_entry_integrity ''a1'' t
     = Inr \<lparr>valid = True, reason = ''Hashes match'', stored_hash = Some (au_hash login_entry),
            calculated_hash = Some (au_hash login_entry)\<rparr>"
proof -
  have "fromisoformat (replace_char CHR ''Z'' ''+00:00'' (au_timestamp login_entry)) = Inr noon"
    using fromisoformat_isoformat [of noon] noon_utc by (simp add: noon_text login_entry_def)
  moreover have "au_hash login_entry \<noteq> []" by (simp add: login_entry_def)
  moreover have "au_action login_entry = ''login''" "au_user login_entry = ''alice''"
    "au_details login_entry = []" by (simp_all add: login_entry_def)
  ultimately show ?thesis using assms login_hash
    by (simp add: verify_audit_entry_integrity_def get_audit_entry_def ebind_def
        verification_of_def)
qed

lemma logout_verifies:
  assumes "audit_store t ''a2'' = Some logout_entry"
  shows "verify_audit_entry_integrity ''a2'' t
     = Inr \<lparr>valid = True, reason = ''Hashes match'', stored_hash = Some (au_hash logout_entry),
            calculated_hash = Some (au_hash logout_entry)\<rparr>"
proof -
  have "fromisoformat (replace_char CHR ''Z'' ''+00:00'' (au_timestamp logout_entry)) = Inr five_past"
    using fromisoformat_isoformat [of five_past] five_past_utc
    by (simp add: five_past_text logout_entry_def)
  moreover have "au_hash logout_entry \<noteq> []" by (simp add: logout_entry_def)
  moreover have "au_action logout_entry = ''logout''" "au_user logout_entry = ''alice''"
    "au_details logout_entry = []" by (simp_all add: logout_entry_def)
  ultimately show ?thesis using assms logout_hash
    by (simp add: verify_audit_entry_integrity_def get_audit_entry_def ebind_def
        verification_of_def)
qed

lemma two_entries_store:
  "audit_store two_entries ''a1'' = Some login_entry"
  "audit_store two_entries ''a2'' = Some logout_entry"
  by (simp_all add: two_entries_def)

lemma collect_listed:
  "collect_entries [''a2'', ''a1''] two_entries = Inr [logout_entry, login_entry]"
  by (simp add: get_audit_entry_def two_entries_store login_verifies logout_verifies ebind_def)

lemma collect_sorted:
  "collect_entries [''a1'', ''a2''] two_entries = Inr [login_entry, logout_entry]"
  by (simp add: get_audit_entry_def two_entries_store login_verifies logout_verifies ebind_def)

lemma collect_one:
  "collect_entries [''a1''] one_entry = Inr [login_entry]"
  by (simp add: get_audit_entry_def login_verifies ebind_def one_entry_def)

lemma timestamps_ordered: "au_timestamp login_entry < au_timestamp logout_entry"
  by (simp add: login_entry_def logout_entry_def)

lemma sort_listed: "sort_key au_timestamp [logout_entry, login_entry] = [login_entry, logout_entry]"
  using timestamps_ordered by (simp add: not_le)

lemma sort_sorted: "sort_key au_timestamp [login_entry, logout_entry] = [login_entry, logout_entry]"
  using timestamps_ordered by simp

lemma collect_entries_stored:
  "collect_entries ids t = Inr es \<Longrightarrow> map (audit_store t) ids = map Some es"
proof (induction ids arbitrary: es)
  case Nil
  then show ?case by simp
next
  case (Cons i ids)
  then show ?case
    by (auto simp: get_audit_entry_def ebind_def split: option.splits sum.splits if_splits)
qed

subsection \<open>Verification after creation\<close>

text \<open>
  Claim C4. Whenever \<^verbatim>\<open>create_evidence\<close> returns a record, the record is the one stored
  under its id and \<^verbatim>\<open>verify_evidence_integrity\<close> of that id returns the record of a match,
  \<^verbatim>\<open>valid\<close> true, with the hash of the record as stored and as calculated hash. The same
  holds for \<^verbatim>\<open>create_audit_entry\<close> and \<^verbatim>\<open>verify_audit_entry_integrity\<close>, the clock
  \<^verbatim>\<open>datetime.now(timezone.utc)\<close> reading a valid UTC datetime.
\<close>

theorem created_records_verify:
  "(create_evidence now_local now evidence_type content source evidence_id m = Inr (e, m') \<longrightarrow>
      get_evidence (ev_id e) m' = Some e \<and>
      verify_evidence_integrity (ev_id e) m'
        = Inr \<lparr>valid = True, reason = ''Hashes match'', stored_hash = Some (ev_hash e),
               calculated_hash = Some (ev_hash e)\<rparr>)
   \<and> (valid_datetime now \<and> utcoffset now = Some 0 \<and>
      create_audit_entry now_local now action user details audit_id bundle_id t = Inr (a, t') \<longrightarrow>
      get_audit_entry (au_id a) t' = Some a \<and>
      verify_audit_entry_integrity (au_id a) t'
        = Inr \<lparr>valid = True, reason = ''Hashes match'', stored_hash = Some (au_hash a),
               calculated_hash = Some (au_hash a)\<rparr>)"
proof (intro conjI impI)
  assume c: "create_evidence now_local now evidence_type content source evidence_id m = Inr (e, m')"
  then obtain h where h: "ev_calculate_hash content = Inr h"
    and e: "ev_content e = content" "ev_hash e = h" and m': "m' = store_evidence e m"
    by (auto simp: create_evidence_def ebind_def Let_def split: if_splits sum.splits)
  from h have "h \<noteq> []"
    by (auto simp: ev_calculate_hash_def ebind_def sha256_hexdigest_nonempty split: sum.splits)
  with h e m' show "get_evidence (ev_id e) m' = Some e"
    "verify_evidence_integrity (ev_id e) m'
        = Inr \<lparr>valid = True, reason = ''Hashes match'', stored_hash = Some (ev_hash e),
               calculated_hash = Some (ev_hash e)\<rparr>"
    by (simp_all add: verify_evidence_integrity_def get_evidence_def store_evidence_get ebind_def
        verification_of_def)
next
  assume "valid_datetime now \<and> utcoffset now = Some 0 \<and>
      create_audit_entry now_local now action user details audit_id bundle_id t = Inr (a, t')"
  then have v: "valid_datetime now" and u: "utcoffset now = Some 0"
    and c: "create_audit_entry now_local now action user details audit_id bundle_id t = Inr (a, t')"
    by simp_all
  from c obtain h where h: "au_calculate_hash action user details now = Inr h"
    and a: "au_action a = action" "au_user a = user" "au_details a = details"
      "au_timestamp a = isoformat now" "au_hash a = h" and t': "t' = store_audit_entry a t"
    by (auto simp: create_audit_entry_def ebind_def Let_def split: if_splits sum.splits)
  from h have "h \<noteq> []"
    by (auto simp: au_calculate_hash_def ebind_def sha256_hexdigest_nonempty split: sum.splits)
  with h a t' fromisoformat_isoformat [OF v u]
  show "get_audit_entry (au_id a) t' = Some a"
    "verify_audit_entry_integrity (au_id a) t'
        = Inr \<lparr>valid = True, reason = ''Hashes match'', stored_hash = Some (au_hash a),
               calculated_hash = Some (au_hash a)\<rparr>"
    by (simp_all add: verify_audit_entry_integrity_def get_audit_entry_def store_audit_entry_get
        ebind_def verification_of_def)
qed

theorem created_records_verify_witness:
  "create_evidence noon noon ''log'' [(''msg'', VStr ''started'')] ''system'' (Some ''e1'')
     new_evidence_manager = Inr (started_evidence, one_evidence)
   \<and> verify_evidence_integrity ''e1'' one_evidence
       = Inr \<lparr>valid = True, reason = ''Hashes match'',
              stored_hash = Some ''48b1f674d8db7da25987289a0d1232338ba81db0bd968fa8273334feea8c026c'',
              calculated_hash = Some ''48b1f674d8db7da25987289a0d1232338ba81db0bd968fa8273334feea8c026c''\<rparr>
   \<and> valid_datetime noon \<and> utcoffset noon = Some 0
   \<and> create_audit_entry noon noon ''login'' ''alice'' [] (Some ''a1'') None new_audit_trail
       = Inr (login_entry, one_entry)
   \<and> verify_audit_entry_integrity ''a1'' one_entry
       = Inr \<lparr>valid = True, reason = ''Hashes match'',
              stored_hash = Some ''f3a382c674d08ad75d2280af5d974480e02680cdd5671935ef36d18f233867cf'',
              calculated_hash = Some ''f3a382c674d08ad75d2280af5d974480e02680cdd5671935ef36d18f233867cf''\<rparr>"
proof -
  note inst = created_records_verify [where now_local = noon and now = noon
      and evidence_type = "''log''" and content = "[(''msg'', VStr ''started'')]"
      and source = "''system''" and evidence_id = "Some ''e1''" and m = new_evidence_manager
      and e = started_evidence and m' = one_evidence
      and action = "''login''" and user = "''alice''" and details = "[]"
      and audit_id = "Some ''a1''" and bundle_id = None and t = new_audit_trail
      and a = login_entry and t' = one_entry]
  have i: "ev_id started_evidence = ''e1''" "au_id login_entry = ''a1''"
    "ev_hash started_evidence = ''48b1f674d8db7da25987289a0d1232338ba81db0bd968fa8273334feea8c026c''"
    "au_hash login_entry = ''f3a382c674d08ad75d2280af5d974480e02680cdd5671935ef36d18f233867cf''"
    by (simp_all add: started_evidence_def login_entry_def)
  from inst started_created login_created noon_utc i show ?thesis by simp
qed

subsection \<open>The indexes under the other operations\<close>

text \<open>Creating and deleting evidence and creating an audit entry (with no bundle id or a
  non-empty one) keep every stored record filed under each of its properties.\<close>

lemma filed_index_add: "filed (index_add idx k j) k' i = (filed idx k' i \<or> (k' = k \<and> i = j))"
  by (auto simp: filed_def index_add_def split: option.splits)

lemma filed_index_remove: "i \<noteq> j \<Longrightarrow> filed (index_remove idx k j) k' i = filed idx k' i"
  by (auto simp: filed_def index_remove_def split: option.splits)

lemma evidence_indexed_create:
  assumes "\<forall>i. evidence_indexed m i"
    and "create_evidence now_local now evidence_type content source evidence_id m = Inr (e, m')"
  shows "\<forall>i. evidence_indexed m' i"
proof
  fix i
  from assms(2) have m': "m' = store_evidence e m"
    by (auto simp: create_evidence_def ebind_def Let_def split: if_splits sum.splits)
  from assms(1) have "evidence_indexed m i" by simp
  then show "evidence_indexed m' i"
    by (auto simp: m' evidence_indexed_def store_evidence_def ev_update_indexes_def
        filed_index_add split: option.splits)
qed

lemma evidence_indexed_delete:
  assumes "\<forall>i. evidence_indexed m i"
    and "\<forall>i e. evidence_store m i = Some e \<longrightarrow> ev_id e = i"
  shows "\<forall>i. evidence_indexed (snd (delete_evidence j m)) i"
proof
  fix i
  from assms(1) have "evidence_indexed m i" by simp
  with assms(2) show "evidence_indexed (snd (delete_evidence j m)) i"
    by (cases "i = j")
      (auto simp: delete_evidence_def get_evidence_def evidence_indexed_def
        remove_from_indexes_def filed_index_remove split: option.splits)
qed

lemma evidence_keyed:
  assumes "\<forall>i e. evidence_store m i = Some e \<longrightarrow> ev_id e = i"
  shows "(create_evidence now_local now evidence_type content source evidence_id m = Inr (e', m')
            \<longrightarrow> (\<forall>i e. evidence_store m' i = Some e \<longrightarrow> ev_id e = i))
       \<and> (\<forall>i e. evidence_store (snd (delete_evidence j m)) i = Some e \<longrightarrow> ev_id e = i)"
  using assms
  by (auto simp: create_evidence_def ebind_def Let_def store_evidence_def ev_update_indexes_def
      delete_evidence_def get_evidence_def remove_from_indexes_def
      split: if_splits sum.splits option.splits)

lemma audit_indexed_create:
  assumes "\<forall>i. audit_indexed t i" and "bundle_id \<noteq> Some []"
    and "create_audit_entry now_local now action user details audit_id bundle_id t = Inr (e, t')"
  shows "\<forall>i. audit_indexed t' i"
proof
  fix i
  from assms(3) have t': "t' = store_audit_entry e t" and b: "au_bundle_id e = bundle_id"
    by (auto simp: create_audit_entry_def ebind_def Let_def split: if_splits sum.splits)
  from assms(1) have "audit_indexed t i" by simp
  with assms(2) b show "audit_indexed t' i"
    by (auto simp: t' audit_indexed_def store_audit_entry_def au_update_indexes_def Let_def
        filed_index_add split: option.splits)
qed

subsection \<open>The index of bundles\<close>

text \<open>
  Claim C2, at a failing input. The entry \<^verbatim>\<open>a1\<close> is created without a bundle, and the
  trail is consistent with its indexes. \<^verbatim>\<open>create_audit_bundle\<close> of the ids \<^verbatim>\<open>[a1]\<close>
  with the bundle id \<^verbatim>\<open>B1\<close> then sets the \<^verbatim>\<open>bundle_id\<close> of the stored entry to \<^verbatim>\<open>B1\<close>
  and leaves the index \<^verbatim>\<open>by_bundle\<close> empty: the id of the entry is not in the index list
  of its bundle.
\<close>

theorem bundle_index_not_updated:
  "create_audit_entry noon noon ''login'' ''alice'' [] (Some ''a1'') None new_audit_trail
     = Inr (login_entry, one_entry)
   \<and> audit_indexed one_entry ''a1''
   \<and> (\<exists>b t. create_audit_bundle noon noon ''daily'' ''d'' [''a1''] (Some ''B1'') one_entry
               = Inr (b, t)
        \<and> b_id b = ''B1''
        \<and> audit_store t ''a1'' = Some (login_entry\<lparr>au_bundle_id := Some ''B1''\<rparr>)
        \<and> by_bundle t = Map.empty
        \<and> \<not> audit_indexed t ''a1'')"
proof -
  have "audit_indexed one_entry ''a1''"
    by (simp add: audit_indexed_def one_entry_def filed_def login_entry_def)
  moreover have "\<exists>b t. create_audit_bundle noon noon ''daily'' ''d'' [''a1''] (Some ''B1'') one_entry
               = Inr (b, t)
        \<and> b_id b = ''B1''
        \<and> audit_store t ''a1'' = Some (login_entry\<lparr>au_bundle_id := Some ''B1''\<rparr>)
        \<and> by_bundle t = Map.empty
        \<and> \<not> audit_indexed t ''a1''"
  proof -
    have o: "audit_store one_entry ''a1'' = Some login_entry" "by_bundle one_entry = Map.empty"
      by (simp_all add: one_entry_def)
    show ?thesis
      by (simp add: create_audit_bundle_def collect_one ebind_def Let_def audit_indexed_def
          filed_def o del: collect_entries.simps)
  qed
  ultimately show ?thesis using login_created by simp
qed

subsection \<open>The two digests of an audit bundle\<close>

text \<open>
  Claim C1 as stated is refuted: the entries \<^verbatim>\<open>a1\<close> and \<^verbatim>\<open>a2\<close> are created and stored five
  seconds apart, and the bundle is created from the ids \<^verbatim>\<open>[a2, a1]\<close>. Its \<^verbatim>\<open>bundle_hash\<close>
  is the digest of the two hashes in the order of the list and its \<^verbatim>\<open>checksum\<close> the digest
  of the two hashes in the order of the timestamps, and the two differ.
\<close>

theorem bundle_hash_in_listed_order:
  "\<exists>b t. create_audit_bundle five_past five_past ''daily'' ''d'' [''a2'', ''a1''] (Some ''B1'')
            two_entries = Inr (b, t)
     \<and> map au_id (entries b) = [''a2'', ''a1'']
     \<and> map au_timestamp (entries b) = [''2024-06-01T12:00:05+00:00'', ''2024-06-01T12:00:00+00:00'']
     \<and> bundle_hash b = ''525cb7dac41ffb3d8b877e97783328c9828906f62da251f4f76375582d9f1935''
     \<and> checksum b = ''dd9f87cc0d24e7dc678e1f91d4c8b9a25d1bf65b7704a1b7d7f7aefe04c1eab6''
     \<and> bundle_hash b \<noteq> checksum b"
proof -
  have "hash_of_hashes [logout_entry, login_entry]
      = ''525cb7dac41ffb3d8b877e97783328c9828906f62da251f4f76375582d9f1935''"
    using listed_digest by (simp add: hash_of_hashes_text login_entry_def logout_entry_def)
  moreover have "calculate_bundle_checksum [logout_entry, login_entry]
      = ''dd9f87cc0d24e7dc678e1f91d4c8b9a25d1bf65b7704a1b7d7f7aefe04c1eab6''"
    using sorted_digest
    by (simp add: calculate_bundle_checksum_def sort_listed hash_of_hashes_text login_entry_def
        logout_entry_def)
  moreover have "map au_id [logout_entry, login_entry] = [''a2'', ''a1'']"
    "map au_timestamp [logout_entry, login_entry]
       = [''2024-06-01T12:00:05+00:00'', ''2024-06-01T12:00:00+00:00'']"
    by (simp_all add: login_entry_def logout_entry_def)
  ultimately show ?thesis
    by (simp add: create_audit_bundle_def collect_listed ebind_def Let_def
        del: collect_entries.simps)
qed

text \<open>
  Claim C1, amended. For every bundle that \<^verbatim>\<open>create_audit_bundle\<close> returns, the ids of the
  list are all stored; with their stored entries taken in the order of the list,
  \<^verbatim>\<open>bundle_hash\<close> is the SHA-256 of their hashes concatenated in that order, and
  \<^verbatim>\<open>checksum\<close> is the SHA-256 of their hashes concatenated in ascending order of the
  timestamp strings (entries of equal timestamp staying in the order of the list). The
  two are equal when the list gives the entries in ascending order of timestamp.
\<close>

theorem bundle_hash_and_checksum:
  assumes "create_audit_bundle now_local now name description audit_ids bundle_id t = Inr (b, t')"
  shows "\<exists>es. map (audit_store t) audit_ids = map Some es
     \<and> map au_hash (entries b) = map au_hash es
     \<and> bundle_hash b = sha256_hexdigest (concat (map (\<lambda>e. encode (au_hash e)) es))
     \<and> checksum b
         = sha256_hexdigest (concat (map (\<lambda>e. encode (au_hash e)) (sort_key au_timestamp es)))
     \<and> (sorted (map au_timestamp es) \<longrightarrow> bundle_hash b = checksum b)"
proof -
  from assms obtain es where es: "collect_entries audit_ids t = Inr es"
    and b: "bundle_hash b = hash_of_hashes es" "checksum b = calculate_bundle_checksum es"
      "map au_hash (entries b) = map au_hash es"
    by (auto simp: create_audit_bundle_def ebind_def Let_def comp_def
        split: if_splits sum.splits)
  have "sorted (map au_timestamp es) \<Longrightarrow> sort_key au_timestamp es = es"
    by (rule sort_key_id_if_sorted)
  with collect_entries_stored [OF es] b show ?thesis
    by (auto simp: hash_of_hashes_def calculate_bundle_checksum_def)
qed

theorem bundle_hash_and_checksum_witness:
  "\<exists>b t. create_audit_bundle five_past five_past ''daily'' ''d'' [''a1'', ''a2''] (Some ''B1'')
            two_entries = Inr (b, t)
     \<and> map (audit_store two_entries) [''a1'', ''a2''] = map Some [login_entry, logout_entry]
     \<and> sorted (map au_timestamp [login_entry, logout_entry])
     \<and> bundle_hash b = ''dd9f87cc0d24e7dc678e1f91d4c8b9a25d1bf65b7704a1b7d7f7aefe04c1eab6''
     \<and> checksum b = bundle_hash b"
proof -
  let ?b = "\<lparr>b_id = ''B1'', b_name = ''daily'', b_description = ''d'',
        created = isoformat five_past, modified = isoformat five_past, version = ''1.0'',
        entry_count = length [login_entry, logout_entry],
        bundle_hash = hash_of_hashes [login_entry, logout_entry],
        entries = map (\<lambda>e. e\<lparr>au_bundle_id := Some ''B1''\<rparr>) [login_entry, logout_entry],
        checksum = calculate_bundle_checksum [login_entry, logout_entry]\<rparr>"
  let ?t = "two_entries\<lparr>bundles := (bundles two_entries)(''B1'' \<mapsto> ?b),
        audit_store := set_bundle_ids [''a1'', ''a2''] ''B1'' (audit_store two_entries)\<rparr>"
  have c: "create_audit_bundle five_past five_past ''daily'' ''d'' [''a1'', ''a2''] (Some ''B1'')
            two_entries = Inr (?b, ?t)"
    by (simp add: create_audit_bundle_def collect_sorted ebind_def Let_def
        del: collect_entries.simps set_bundle_ids.simps)
  have s: "sorted (map au_timestamp [login_entry, logout_entry])"
    using timestamps_ordered by simp
  have st: "map (audit_store two_entries) [''a1'', ''a2''] = map Some [login_entry, logout_entry]"
    by (simp add: two_entries_store)
  have h: "bundle_hash ?b = ''dd9f87cc0d24e7dc678e1f91d4c8b9a25d1bf65b7704a1b7d7f7aefe04c1eab6''"
    using sorted_digest by (simp add: hash_of_hashes_text login_entry_def logout_entry_def)
  from bundle_hash_and_checksum [OF c] obtain es
    where es: "map (audit_store two_entries) [''a1'', ''a2''] = map Some es"
      "sorted (map au_timestamp es) \<longrightarrow> bundle_hash ?b = checksum ?b"
    by blast
  from es(1) st have "es = [login_entry, logout_entry]"
    by (metis list.inj_map_strong option.inject)
  with es(2) s have "checksum ?b = bundle_hash ?b" by simp
  with c st s h show ?thesis by blast
qed

section \<open>The cache of the rule engine\<close>

subsection \<open>Reading a record after an update\<close>









subsection \<open>The keys of two contexts and the rule used below\<close>















subsection \<open>What an execution writes\<close>



subsection \<open>What the key is made of\<close>




end
